theory Spec2Isabelle
  imports Main
begin

section \<open>JavaScript strings and values\<close>

text \<open>
  A JavaScript string is a sequence of UTF-16 code units. The importer script handles
  characters outside ASCII (dashes, emoji), so a code unit is modelled as a natural
  number and a string as a list of code units. \<open>js\<close> embeds an ASCII literal.
\<close>

type_synonym jschar = nat
type_synonym jsstring = "jschar list"

definition js :: "string \<Rightarrow> jsstring" where
  "js s = map of_char s"

text \<open>JavaScript values as they occur in JSON bodies and store records.\<close>

datatype jsval = JNull | JBool bool | JNum int | JStr jsstring

fun truthy :: "jsval \<Rightarrow> bool" where
  "truthy JNull = False"
| "truthy (JBool b) = b"
| "truthy (JNum n) = (n \<noteq> 0)"
| "truthy (JStr s) = (s \<noteq> [])"

text \<open>A value that is either \<open>null\<close> or a string: \<open>None\<close> is \<open>null\<close>.\<close>

fun truthy_str :: "jsstring option \<Rightarrow> bool" where
  "truthy_str None = False"
| "truthy_str (Some s) = (s \<noteq> [])"

fun str_val :: "jsstring option \<Rightarrow> jsval" where
  "str_val None = JNull"
| "str_val (Some s) = JStr s"

text \<open>\<open>a || b\<close> on nullable strings.\<close>

definition or_str :: "jsstring option \<Rightarrow> jsstring option \<Rightarrow> jsstring option" where
  "or_str a b = (if truthy_str a then a else b)"

subsection \<open>Character classes\<close>

text \<open>
  \<open>\s\<close> is WhiteSpace and LineTerminator of ECMAScript; \<open>String.prototype.trim\<close> strips
  the same set.
\<close>

definition is_space :: "jschar \<Rightarrow> bool" where
  "is_space c \<longleftrightarrow> c \<in> {9, 10, 11, 12, 13, 32, 160, 0x1680, 0x2028, 0x2029, 0x202F, 0x205F, 0x3000, 0xFEFF}
     \<or> (0x2000 \<le> c \<and> c \<le> 0x200A)"

definition is_digit :: "jschar \<Rightarrow> bool" where
  "is_digit c \<longleftrightarrow> 48 \<le> c \<and> c \<le> 57"

definition is_word :: "jschar \<Rightarrow> bool" where
  "is_word c \<longleftrightarrow> (65 \<le> c \<and> c \<le> 90) \<or> (97 \<le> c \<and> c \<le> 122) \<or> is_digit c \<or> c = 95"

definition is_line_terminator :: "jschar \<Rightarrow> bool" where
  "is_line_terminator c \<longleftrightarrow> c \<in> {10, 13, 0x2028, 0x2029}"

text \<open>
  Canonicalize of ECMAScript for a pattern with the \<open>i\<close> flag and without the \<open>u\<close> flag:
  the code unit is upper-cased, unless that would turn a code unit from 128 on into an
  ASCII one. The table is written out for the code units below 256; a code unit from 256 on
  is left as it is, and none of them upper-cases to a code unit that a pattern of this
  program compares with.
\<close>

definition canonicalize :: "jschar \<Rightarrow> jschar" where
  "canonicalize c =
     (if 97 \<le> c \<and> c \<le> 122 then c - 32
      else if c = 181 then 924
      else if c = 255 then 376
      else if 224 \<le> c \<and> c \<le> 254 \<and> c \<noteq> 247 then c - 32
      else c)"

definition toUpperCase :: "jsstring \<Rightarrow> jsstring" where
  "toUpperCase s = map (\<lambda>c. if 97 \<le> c \<and> c \<le> 122 then c - 32 else c) s"

datatype atom = Ch jschar | Digit | Space | Word

datatype cls = Dot | Pos "atom list" | Neg "atom list"

fun in_atom :: "bool \<Rightarrow> jschar \<Rightarrow> atom \<Rightarrow> bool" where
  "in_atom i c (Ch p) = (if i then canonicalize c = canonicalize p else c = p)"
| "in_atom i c Digit = is_digit c"
| "in_atom i c Space = is_space c"
| "in_atom i c Word = is_word c"

fun in_cls :: "bool \<Rightarrow> cls \<Rightarrow> jschar \<Rightarrow> bool" where
  "in_cls i Dot c = (\<not> is_line_terminator c)"
| "in_cls i (Pos as) c = (\<exists>a \<in> set as. in_atom i c a)"
| "in_cls i (Neg as) c = (\<not> (\<exists>a \<in> set as. in_atom i c a))"

subsection \<open>A backtracking matcher for the patterns of the script\<close>

text \<open>
  The regular expressions of the script are sequences of greedy repetitions of a character
  class, alternations of literal strings, capture groups that do not nest, and the anchors
  \<open>^\<close> and \<open>$\<close>. \<open>Rep c lo hi\<close> is the class \<open>c\<close> repeated at least \<open>lo\<close> and at most \<open>hi\<close>
  times (\<open>None\<close>: unbounded), longest first (\<open>rx_rep\<close> counts down from the longest
  run); \<open>Alt\<close> tries its alternatives in order (\<open>rx_alt\<close>);
  \<open>Open\<close> and \<open>Close\<close> delimit a capture group.
\<close>

datatype rx = Rep cls nat "nat option" | Alt "jsstring list" | Open | Close | Bol | Eol

definition lit_prefix :: "bool \<Rightarrow> jsstring \<Rightarrow> jsstring \<Rightarrow> bool" where
  "lit_prefix i a rest \<longleftrightarrow>
     length a \<le> length rest \<and>
     (if i then map canonicalize (take (length a) rest) = map canonicalize a
      else take (length a) rest = a)"

definition run :: "bool \<Rightarrow> cls \<Rightarrow> nat option \<Rightarrow> jsstring \<Rightarrow> nat" where
  "run i c hi rest =
     (let n = length (takeWhile (in_cls i c) rest)
      in case hi of None \<Rightarrow> n | Some h \<Rightarrow> min h n)"

text \<open>
  The state of a match: the position \<open>pos\<close> and the input from there on (\<open>rest\<close>), the
  position and the input where the open group started, and the groups closed so far.
\<close>

record mstate =
  pos :: nat
  rest :: jsstring
  gpos :: nat
  grest :: jsstring
  caps :: "jsstring list"

definition advance :: "nat \<Rightarrow> mstate \<Rightarrow> mstate" where
  "advance k st = st\<lparr>pos := pos st + k, rest := drop k (rest st)\<rparr>"

function rx_match :: "bool \<Rightarrow> rx list \<Rightarrow> mstate \<Rightarrow> mstate option"
  and rx_rep :: "bool \<Rightarrow> rx list \<Rightarrow> nat \<Rightarrow> nat \<Rightarrow> mstate \<Rightarrow> mstate option"
  and rx_alt :: "bool \<Rightarrow> rx list \<Rightarrow> jsstring list \<Rightarrow> mstate \<Rightarrow> mstate option" where
  "rx_match i [] st = Some st"
| "rx_match i (Open # r) st = rx_match i r (st\<lparr>gpos := pos st, grest := rest st\<rparr>)"
| "rx_match i (Close # r) st =
     rx_match i r (st\<lparr>caps := caps st @ [take (pos st - gpos st) (grest st)]\<rparr>)"
| "rx_match i (Bol # r) st = (if pos st = 0 then rx_match i r st else None)"
| "rx_match i (Eol # r) st = (if rest st = [] then rx_match i r st else None)"
| "rx_match i (Alt as # r) st = rx_alt i r as st"
| "rx_match i (Rep c lo hi # r) st = rx_rep i r lo (run i c hi (rest st)) st"
| "rx_rep i r lo k st =
     (if k < lo then None
      else (case rx_match i r (advance k st) of
              Some m \<Rightarrow> Some m
            | None \<Rightarrow> (case k of 0 \<Rightarrow> None | Suc k' \<Rightarrow> rx_rep i r lo k' st)))"
| "rx_alt i r [] st = None"
| "rx_alt i r (a # as) st =
     (case (if lit_prefix i a (rest st) then rx_match i r (advance (length a) st) else None) of
        Some m \<Rightarrow> Some m
      | None \<Rightarrow> rx_alt i r as st)"
  by pat_completeness auto
termination
  by (relation "measures
       [\<lambda>x. case x of
           Inl (i, r, st) \<Rightarrow> 2 * length r
         | Inr (Inl (i, r, lo, k, st)) \<Rightarrow> 2 * length r + 1
         | Inr (Inr (i, r, as, st)) \<Rightarrow> 2 * length r + 1,
        \<lambda>x. case x of
           Inl (i, r, st) \<Rightarrow> 0
         | Inr (Inl (i, r, lo, k, st)) \<Rightarrow> k
         | Inr (Inr (i, r, as, st)) \<Rightarrow> length as]") auto

text \<open>The leftmost match: the start position, the end position and the groups.\<close>

fun rx_search :: "bool \<Rightarrow> rx list \<Rightarrow> nat \<Rightarrow> jsstring \<Rightarrow> (nat \<times> nat \<times> jsstring list) option" where
  "rx_search i r p s =
     (case rx_match i r \<lparr>pos = p, rest = s, gpos = p, grest = s, caps = []\<rparr> of
        Some m \<Rightarrow> Some (p, pos m, caps m)
      | None \<Rightarrow> (case s of [] \<Rightarrow> None | x # t \<Rightarrow> rx_search i r (Suc p) t))"

declare rx_rep.simps [simp del] rx_search.simps [simp del]

text \<open>\<open>regex.test(s)\<close>, \<open>s.match(regex)\<close> without the \<open>g\<close> flag (the match and its groups), and
  \<open>s.replace(regex, f)\<close> without the \<open>g\<close> flag, where \<open>f\<close> builds the replacement from the
  groups.\<close>

definition rx_test :: "bool \<Rightarrow> rx list \<Rightarrow> jsstring \<Rightarrow> bool" where
  "rx_test i r s = (rx_search i r 0 s \<noteq> None)"

definition str_match :: "bool \<Rightarrow> rx list \<Rightarrow> jsstring \<Rightarrow> jsstring list option" where
  "str_match i r s =
     (case rx_search i r 0 s of
        None \<Rightarrow> None
      | Some (p, e, cs) \<Rightarrow> Some (take (e - p) (drop p s) # cs))"

definition str_replace :: "bool \<Rightarrow> rx list \<Rightarrow> (jsstring list \<Rightarrow> jsstring) \<Rightarrow> jsstring \<Rightarrow> jsstring" where
  "str_replace i r f s =
     (case rx_search i r 0 s of
        None \<Rightarrow> s
      | Some (p, e, cs) \<Rightarrow> take p s @ f cs @ drop e s)"

definition trim :: "jsstring \<Rightarrow> jsstring" where
  "trim s = rev (dropWhile is_space (rev (dropWhile is_space s)))"

fun str_includes :: "jsstring \<Rightarrow> jsstring \<Rightarrow> bool" where
  "str_includes [] sub = (sub = [])"
| "str_includes (x # xs) sub = (take (length sub) (x # xs) = sub \<or> str_includes xs sub)"

text \<open>\<open>m[n]\<close> on a match array. Every group of the patterns below takes part in every
  match, so the index is in range wherever the script reads it.\<close>

definition grp :: "jsstring list \<Rightarrow> nat \<Rightarrow> jsstring" where
  "grp m n = (if n < length m then m ! n else [])"

text \<open>\<open>s.replace(v, '')\<close> with a string \<open>v\<close>: the first occurrence of \<open>v\<close> is removed.\<close>

fun remove_first :: "jsstring \<Rightarrow> jsstring \<Rightarrow> jsstring" where
  "remove_first [] v = []"
| "remove_first (x # xs) v =
     (if take (length v) (x # xs) = v then drop (length v) (x # xs)
      else x # remove_first xs v)"

subsection \<open>Numbers and their decimal text\<close>

text \<open>\<open>parseInt(s, 10)\<close> and unary \<open>+\<close> on a string of decimal digits, as the groups
  \<open>(\d+)\<close> are. Numbers are modelled as unbounded integers.\<close>

definition parseInt :: "jsstring \<Rightarrow> int" where
  "parseInt s = foldl (\<lambda>n c. 10 * n + (int c - 48)) 0 (takeWhile is_digit s)"

text \<open>\<open>String(n)\<close> for an integer: its decimal digits, most significant first.\<close>

function digits :: "nat \<Rightarrow> jsstring \<Rightarrow> jsstring" where
  "digits n acc = (if n < 10 then (48 + n) # acc else digits (n div 10) ((48 + n mod 10) # acc))"
  by pat_completeness auto
termination
  by (relation "measure fst") auto

declare digits.simps [simp del]

definition String :: "int \<Rightarrow> jsstring" where
  "String n = (if n < 0 then 45 # digits (nat (- n)) [] else digits (nat n) [])"

definition padStart :: "nat \<Rightarrow> jschar \<Rightarrow> jsstring \<Rightarrow> jsstring" where
  "padStart n c s = replicate (n - length s) c @ s"

section \<open>The date library\<close>

text \<open>
  The script builds its timestamps with the library dayjs (plugins customParseFormat, utc and
  timezone), which is not part of the repository. This section models the calls that
  \<open>parseDateTime\<close> makes: \<open>dayjs.tz(iso, 'YYYY-MM-DDTHH:mm:ss', 'America/New_York')\<close>,
  \<open>isValid()\<close> and \<open>format('YYYY-MM-DDTHH:mm:ss')\<close>. Dates are those of ECMAScript: a time
  value is a number of milliseconds since 1970-01-01 UTC.
\<close>

definition DayFromYear :: "int \<Rightarrow> int" where
  "DayFromYear y = 365 * (y - 1970) + (y - 1969) div 4 - (y - 1901) div 100 + (y - 1601) div 400"

definition InLeapYear :: "int \<Rightarrow> bool" where
  "InLeapYear y \<longleftrightarrow> (y mod 4 = 0 \<and> y mod 100 \<noteq> 0) \<or> y mod 400 = 0"

text \<open>The day within the year on which month \<open>m\<close> (0 to 11) starts.\<close>

definition month_start :: "int \<Rightarrow> bool \<Rightarrow> int" where
  "month_start m leap =
     (if m = 0 then 0 else if m = 1 then 31
      else (if leap then 1 else 0) +
        (if m = 2 then 59 else if m = 3 then 90 else if m = 4 then 120 else if m = 5 then 151
         else if m = 6 then 181 else if m = 7 then 212 else if m = 8 then 243
         else if m = 9 then 273 else if m = 10 then 304 else 334))"

text \<open>MakeDay, MakeTime, MakeDate and TimeClip of ECMAScript. A month or a day out of range
  carries over: MakeDay takes the month modulo 12 and adds the day number to the first of
  that month.\<close>

definition MakeDay :: "int \<Rightarrow> int \<Rightarrow> int \<Rightarrow> int" where
  "MakeDay y m d =
     DayFromYear (y + m div 12) + month_start (m mod 12) (InLeapYear (y + m div 12)) + d - 1"

definition MakeTime :: "int \<Rightarrow> int \<Rightarrow> int \<Rightarrow> int \<Rightarrow> int" where
  "MakeTime h m s ms = h * 3600000 + m * 60000 + s * 1000 + ms"

definition MakeDate :: "int \<Rightarrow> int \<Rightarrow> int" where
  "MakeDate day time = day * 86400000 + time"

definition TimeClip :: "int \<Rightarrow> int option" where
  "TimeClip t = (if \<bar>t\<bar> > 8640000000000000 then None else Some t)"

text \<open>\<open>Date.UTC(y, m, d, h, mi, s, ms)\<close>; \<open>None\<close> is NaN. A year from 0 to 99 means 1900 + y.\<close>

definition full_year :: "int \<Rightarrow> int" where
  "full_year y = (if 0 \<le> y \<and> y \<le> 99 then 1900 + y else y)"

definition Date_UTC :: "int \<Rightarrow> int \<Rightarrow> int \<Rightarrow> int \<Rightarrow> int \<Rightarrow> int \<Rightarrow> int \<Rightarrow> int option" where
  "Date_UTC y m d h mi s ms =
     TimeClip (MakeDate (MakeDay (full_year y) m d) (MakeTime h mi s ms))"

text \<open>The calendar fields of a day number (days since 1970-01-01), in the proleptic
  Gregorian calendar: year, month (1 to 12), day of the month.\<close>

definition civil_of_march_day :: "int \<Rightarrow> int \<Rightarrow> int \<Rightarrow> int \<times> int \<times> int" where
  "civil_of_march_day y doy mp =
     (y + (if mp < 10 then 0 else 1), (if mp < 10 then mp + 3 else mp - 9),
      doy - (153 * mp + 2) div 5 + 1)"

definition civil_of_year_day :: "int \<Rightarrow> int \<Rightarrow> int \<times> int \<times> int" where
  "civil_of_year_day y doy = civil_of_march_day y doy ((5 * doy + 2) div 153)"

definition civil_of_era_year :: "int \<Rightarrow> int \<Rightarrow> int \<Rightarrow> int \<times> int \<times> int" where
  "civil_of_era_year era doe yoe =
     civil_of_year_day (yoe + era * 400) (doe - (365 * yoe + yoe div 4 - yoe div 100))"

definition civil_of_era_day :: "int \<Rightarrow> int \<Rightarrow> int \<times> int \<times> int" where
  "civil_of_era_day era doe =
     civil_of_era_year era doe
       ((doe - doe div 1460 + doe div 36524 - doe div 146096) div 365)"

definition civil_from_days :: "int \<Rightarrow> int \<times> int \<times> int" where
  "civil_from_days z =
     civil_of_era_day ((z + 719468) div 146097) ((z + 719468) mod 146097)"

text \<open>
  The host on which the script runs: the current time; the date of the host's clock (the
  parser of the library falls back on it for a field that is zero); the offset from UTC of
  America/New_York at a time value, as the host's time zone database gives it; the offset
  from UTC of the host's own zone at a time value; and the time value that \<open>dayjs(s)\<close>
  gives a timestamp without zone, which it reads in the host's own zone. Both offsets are
  in milliseconds, local time minus UTC: the library holds them in minutes, which have a
  fraction where the zone's offset has seconds.
\<close>

record host =
  now :: int
  cur_year :: int
  cur_month :: int
  cur_date :: int
  tzOffset :: "int \<Rightarrow> int"
  local_offset :: "int \<Rightarrow> int"
  local_time :: "jsstring \<Rightarrow> int"

definition lit :: "string \<Rightarrow> rx" where
  "lit s = Alt [js s]"

text \<open>
  The parser that customParseFormat builds for \<open>'YYYY-MM-DDTHH:mm:ss'\<close>. The format splits
  into the tokens \<open>YYYY - MM - DD HH : mm : ss\<close> (the letter \<open>T\<close> is no token and is dropped).
  A separator adds its length to \<open>start\<close>; a field searches its pattern (\<open>\d{4}\<close>, \<open>\d\d\<close> or
  \<open>\d\d?\<close>, not anchored) in the input from \<open>start\<close> on, stores the number, and removes the
  first occurrence of the matched text from the input. A field that finds no match raises a
  TypeError, which the library turns into an invalid date (\<open>None\<close>).
\<close>

datatype fmt_token = Sep nat | Field "rx list"

definition match4 :: "rx list" where "match4 = [Rep (Pos [Digit]) 4 (Some 4)]"
definition match2 :: "rx list" where "match2 = [Rep (Pos [Digit]) 2 (Some 2)]"
definition match1to2 :: "rx list" where "match1to2 = [Rep (Pos [Digit]) 1 (Some 2)]"

definition iso_format :: "fmt_token list" where
  "iso_format = [Field match4, Sep 1, Field match2, Sep 1, Field match2,
                 Field match1to2, Sep 1, Field match1to2, Sep 1, Field match1to2]"

fun run_parser :: "fmt_token list \<Rightarrow> nat \<Rightarrow> jsstring \<Rightarrow> int list option" where
  "run_parser [] start inp = Some []"
| "run_parser (Sep n # ts) start inp = run_parser ts (start + n) inp"
| "run_parser (Field r # ts) start inp =
     (case str_match False r (drop start inp) of
        None \<Rightarrow> None
      | Some m \<Rightarrow>
          (case run_parser ts start (remove_first inp (grp m 0)) of
             None \<Rightarrow> None
           | Some vs \<Rightarrow> Some (parseInt (grp m 0) # vs)))"

fun fields_time :: "host \<Rightarrow> int list \<Rightarrow> int option" where
  "fields_time h [year, month, day, hours, minutes, seconds] =
     Date_UTC
       (if year \<noteq> 0 then year else cur_year h)
       (if year \<noteq> 0 \<and> month = 0 then 0
        else if month > 0 then month - 1 else cur_month h)
       (if day \<noteq> 0 then day else if year = 0 \<and> month = 0 then cur_date h else 1)
       hours minutes seconds 0"
| "fields_time h vs = None"

definition parseFormattedInput :: "host \<Rightarrow> jsstring \<Rightarrow> int option" where
  "parseFormattedInput h inp =
     (case run_parser iso_format 0 inp of
        None \<Rightarrow> None
      | Some vs \<Rightarrow> fields_time h vs)"

text \<open>
  \<open>fixOffset\<close> of the timezone plugin: from a wall-clock time value and a guessed offset, the
  time value and the offset of the zone. In a gap of the zone's clock the wall-clock time is
  not kept. \<open>fixOffset2\<close> is the part after the first guess failed, \<open>fixOffset3\<close> the part
  after the second offset \<open>o3\<close> is known. The offsets being in milliseconds, \<open>o * 60 * 1000\<close>
  of the library is \<open>o\<close> here.
\<close>

definition fixOffset3 :: "int \<Rightarrow> int \<Rightarrow> int \<Rightarrow> int \<Rightarrow> int \<times> int" where
  "fixOffset3 localTS utcGuess o2 o3 =
     (if o2 = o3 then (utcGuess, o2)
      else (localTS - min o2 o3, max o2 o3))"

definition fixOffset2 :: "host \<Rightarrow> int \<Rightarrow> int \<Rightarrow> int \<Rightarrow> int \<times> int" where
  "fixOffset2 h localTS utcGuess o2 = fixOffset3 localTS utcGuess o2 (tzOffset h utcGuess)"

definition fixOffset1 :: "host \<Rightarrow> int \<Rightarrow> int \<Rightarrow> int \<Rightarrow> int \<Rightarrow> int \<times> int" where
  "fixOffset1 h localTS o0 utcGuess o2 =
     (if o0 = o2 then (utcGuess, o0)
      else fixOffset2 h localTS (utcGuess - (o2 - o0)) o2)"

definition fixOffset :: "host \<Rightarrow> int \<Rightarrow> int \<Rightarrow> int \<times> int" where
  "fixOffset h localTS o0 =
     fixOffset1 h localTS o0 (localTS - o0) (tzOffset h (localTS - o0))"

text \<open>
  \<open>d(targetTs).utcOffset(targetOffset)\<close> of the utc plugin, and what \<open>format\<close> reads from
  the instance. An offset of at most 16 minutes is taken for hours. With the offset 0 the
  instance is in UTC mode and shows the time value itself. Otherwise the instance is a
  local one, moved by the offset and by \<open>localTimezoneOffset\<close>, which is the host's own
  offset at \<open>targetTs\<close> rounded to a quarter of an hour and negated (\<open>Math.round\<close> rounds a
  half upwards); \<open>format\<close> shows the fields of its time value in the host's zone.
\<close>

definition offset_of_input :: "int \<Rightarrow> int" where
  "offset_of_input input = (if \<bar>input\<bar> \<le> 16 * 60 * 1000 then input * 60 else input)"

definition localTimezoneOffset :: "host \<Rightarrow> int \<Rightarrow> int" where
  "localTimezoneOffset h t =
     ((15 * 60 * 1000 - 2 * local_offset h t) div (2 * 15 * 60 * 1000)) * (15 * 60 * 1000)"

definition local_fields :: "host \<Rightarrow> int \<Rightarrow> int" where
  "local_fields h t = t + local_offset h t"

fun wall_clock :: "host \<Rightarrow> int \<times> int \<Rightarrow> int" where
  "wall_clock h (targetTs, targetOffset) =
     (if targetOffset = 0 then targetTs
      else local_fields h
             (targetTs + (offset_of_input targetOffset + localTimezoneOffset h targetTs)))"

text \<open>
  \<open>dayjs.tz(iso, format, zone)\<close>: \<open>None\<close> when the instance is not valid (an invalid date
  makes the plugin raise; \<open>parseDateTime\<close> returns the same for an exception and for an
  invalid instance). \<open>dayjs_tz_instance\<close> is the time value of the instance with its
  offset; \<open>dayjs_tz\<close> is the time value of the wall clock that \<open>format\<close> shows.
\<close>

definition dayjs_tz_instance :: "host \<Rightarrow> jsstring \<Rightarrow> (int \<times> int) option" where
  "dayjs_tz_instance h inp =
     (case parseFormattedInput h inp of
        None \<Rightarrow> None
      | Some localTs \<Rightarrow> Some (fixOffset h localTs (tzOffset h (now h))))"

definition dayjs_tz :: "host \<Rightarrow> jsstring \<Rightarrow> int option" where
  "dayjs_tz h inp =
     (case dayjs_tz_instance h inp of
        None \<Rightarrow> None
      | Some ins \<Rightarrow> Some (wall_clock h ins))"

definition pad2 :: "int \<Rightarrow> jsstring" where
  "pad2 n = padStart 2 48 (String n)"

text \<open>\<open>format('YYYY-MM-DDTHH:mm:ss')\<close> of an instance with wall clock \<open>w\<close>.\<close>

fun format_fields :: "int \<times> int \<times> int \<Rightarrow> int \<Rightarrow> jsstring" where
  "format_fields (y, m, d) t =
     padStart 4 48 (String y) @ js ''-'' @ pad2 m @ js ''-'' @ pad2 d @ js ''T'' @
     pad2 (t div 3600000) @ js '':'' @ pad2 (t mod 3600000 div 60000) @ js '':'' @
     pad2 (t mod 60000 div 1000)"

definition format_naive :: "int \<Rightarrow> jsstring" where
  "format_naive w = format_fields (civil_from_days (w div 86400000)) (w mod 86400000)"

section \<open>parseDateTime\<close>

text \<open>
  The patterns of \<open>parseDateTime\<close>, all with the \<open>i\<close> flag. The character class between the
  two times is written in the source file with the characters U+00E2 U+20AC U+201D,
  U+00E2 U+20AC U+201C and the hyphen: the file holds the UTF-8 bytes of an em dash and of an
  en dash read as Windows-1252 and encoded again, so the class that the script is run with
  has the five members below and neither U+2014 nor U+2013.
\<close>

definition timeRangePattern :: "rx list" where
  "timeRangePattern =
     [Open, Rep (Pos [Digit]) 1 None, lit '':'', Rep (Pos [Digit]) 1 None,
        Rep (Pos [Space]) 0 None, Rep (Pos [Ch 65, Ch 80]) 1 (Some 1), lit ''M'', Close,
      Rep (Pos [Space]) 0 None,
      Rep (Pos [Ch 0xE2, Ch 0x20AC, Ch 0x201D, Ch 0xE2, Ch 0x20AC, Ch 0x201C, Ch 45]) 1 (Some 1),
      Rep (Pos [Space]) 0 None,
      Open, Rep (Pos [Digit]) 1 None, lit '':'', Rep (Pos [Digit]) 1 None,
        Rep (Pos [Space]) 0 None, Rep (Pos [Ch 65, Ch 80]) 1 (Some 1), lit ''M'', Close]"

text \<open>\<open>/(\d)([AP]M)/i\<close>, replaced by \<open>'$1 $2'\<close>.\<close>

definition meridiemPattern :: "rx list" where
  "meridiemPattern =
     [Open, Rep (Pos [Digit]) 1 (Some 1), Close,
      Open, Rep (Pos [Ch 65, Ch 80]) 1 (Some 1), lit ''M'', Close]"

definition normalizeTime :: "jsstring \<Rightarrow> jsstring" where
  "normalizeTime t = str_replace True meridiemPattern (\<lambda>cs. grp cs 0 @ js '' '' @ grp cs 1) t"

text \<open>\<open>/^[^,]+,\s+(\w+)\s+(\d+),\s+(\d+)\s+(\d+):(\d+)\s+(AM|PM)\s*$/i\<close>\<close>

definition dateTimePattern :: "rx list" where
  "dateTimePattern =
     [Bol, Rep (Neg [Ch 44]) 1 None, lit '','', Rep (Pos [Space]) 1 None,
      Open, Rep (Pos [Word]) 1 None, Close, Rep (Pos [Space]) 1 None,
      Open, Rep (Pos [Digit]) 1 None, Close, lit '','', Rep (Pos [Space]) 1 None,
      Open, Rep (Pos [Digit]) 1 None, Close, Rep (Pos [Space]) 1 None,
      Open, Rep (Pos [Digit]) 1 None, Close, lit '':'',
      Open, Rep (Pos [Digit]) 1 None, Close, Rep (Pos [Space]) 1 None,
      Open, Alt [js ''AM'', js ''PM''], Close, Rep (Pos [Space]) 0 None, Eol]"

text \<open>\<open>/(\w+)\s+(\d+),\s+(\d+)\s+(\d+):(\d+)\s+(AM|PM)/i\<close>\<close>

definition lenientPattern :: "rx list" where
  "lenientPattern =
     [Open, Rep (Pos [Word]) 1 None, Close, Rep (Pos [Space]) 1 None,
      Open, Rep (Pos [Digit]) 1 None, Close, lit '','', Rep (Pos [Space]) 1 None,
      Open, Rep (Pos [Digit]) 1 None, Close, Rep (Pos [Space]) 1 None,
      Open, Rep (Pos [Digit]) 1 None, Close, lit '':'',
      Open, Rep (Pos [Digit]) 1 None, Close, Rep (Pos [Space]) 1 None,
      Open, Alt [js ''AM'', js ''PM''], Close]"

record date_time =
  startDateTime :: "jsstring option"
  endDateTime :: "jsstring option"

definition null_result :: date_time where
  "null_result = \<lparr>startDateTime = None, endDateTime = None\<rparr>"

record components =
  year :: int
  month :: int
  day :: int
  hour :: int
  minute :: int

definition monthNames :: "jsstring list" where
  "monthNames = [js ''January'', js ''February'', js ''March'', js ''April'', js ''May'',
     js ''June'', js ''July'', js ''August'', js ''September'', js ''October'',
     js ''November'', js ''December'']"

text \<open>\<open>Array.prototype.indexOf\<close>: the first index of the element, or -1.\<close>

fun indexOf :: "'a list \<Rightarrow> 'a \<Rightarrow> int" where
  "indexOf [] x = -1"
| "indexOf (y # ys) x = (if y = x then 0 else if indexOf ys x = -1 then -1 else indexOf ys x + 1)"

text \<open>The two statements that turn a 12-hour clock into a 24-hour one, in their order.\<close>

definition pm_hour :: "jsstring \<Rightarrow> int \<Rightarrow> int" where
  "pm_hour ampm h = (if ampm = js ''PM'' \<and> h \<noteq> 12 then h + 12 else h)"

definition am_hour :: "jsstring \<Rightarrow> int \<Rightarrow> int" where
  "am_hour ampm h = (if ampm = js ''AM'' \<and> h = 12 then 0 else h)"

text \<open>\<open>parseComponents\<close>; \<open>None\<close> is the exception for an invalid month name.\<close>

definition parseComponents :: "jsstring list \<Rightarrow> components option" where
  "parseComponents m =
     (if indexOf monthNames (grp m 1) = -1 then None
      else Some \<lparr>year = parseInt (grp m 3),
                 month = indexOf monthNames (grp m 1),
                 day = parseInt (grp m 2),
                 hour = am_hour (toUpperCase (grp m 6))
                          (pm_hour (toUpperCase (grp m 6)) (parseInt (grp m 4))),
                 minute = parseInt (grp m 5)\<rparr>)"

definition iso_string :: "components \<Rightarrow> jsstring" where
  "iso_string c =
     String (year c) @ js ''-'' @ padStart 2 48 (String (month c + 1)) @ js ''-'' @
     padStart 2 48 (String (day c)) @ js ''T'' @ padStart 2 48 (String (hour c)) @ js '':'' @
     padStart 2 48 (String (minute c)) @ js '':00''"

text \<open>
  \<open>parseDateTime\<close> step by step, last step first. \<open>zoned_result\<close>: both timestamps are read in
  the zone and, when both are valid, formatted without zone.
\<close>

definition zoned_result :: "host \<Rightarrow> components \<Rightarrow> components \<Rightarrow> date_time" where
  "zoned_result h sc ec =
     (case dayjs_tz h (iso_string sc) of
        None \<Rightarrow> null_result
      | Some startNY \<Rightarrow>
          (case dayjs_tz h (iso_string ec) of
             None \<Rightarrow> null_result
           | Some endNY \<Rightarrow>
               \<lparr>startDateTime = Some (format_naive startNY),
                endDateTime = Some (format_naive endNY)\<rparr>))"

definition components_result :: "host \<Rightarrow> jsstring list \<Rightarrow> jsstring list \<Rightarrow> date_time" where
  "components_result h startMatch endMatch =
     (case parseComponents startMatch of
        None \<Rightarrow> null_result
      | Some sc \<Rightarrow>
          (case parseComponents endMatch of
             None \<Rightarrow> null_result
           | Some ec \<Rightarrow> zoned_result h sc ec))"

text \<open>The lenient pattern, tried on both strings when the strict one failed on either.\<close>

definition lenient_result :: "host \<Rightarrow> jsstring \<Rightarrow> jsstring \<Rightarrow> date_time" where
  "lenient_result h trimmedStart trimmedEnd =
     (case str_match True lenientPattern trimmedStart of
        None \<Rightarrow> null_result
      | Some sl \<Rightarrow>
          (case str_match True lenientPattern trimmedEnd of
             None \<Rightarrow> null_result
           | Some el \<Rightarrow> components_result h (trimmedStart # tl sl) (trimmedEnd # tl el)))"

definition matched_result :: "host \<Rightarrow> jsstring \<Rightarrow> jsstring \<Rightarrow> date_time" where
  "matched_result h trimmedStart trimmedEnd =
     (case str_match True dateTimePattern trimmedStart of
        None \<Rightarrow> lenient_result h trimmedStart trimmedEnd
      | Some sm \<Rightarrow>
          (case str_match True dateTimePattern trimmedEnd of
             None \<Rightarrow> lenient_result h trimmedStart trimmedEnd
           | Some em \<Rightarrow> components_result h sm em))"

definition range_result :: "host \<Rightarrow> jsstring \<Rightarrow> jsstring \<Rightarrow> date_time" where
  "range_result h dateStr timeStr =
     (case str_match True timeRangePattern timeStr of
        None \<Rightarrow> null_result
      | Some timeMatch \<Rightarrow>
          matched_result h
            (trim (dateStr @ js '' '' @ normalizeTime (trim (grp timeMatch 1))))
            (trim (dateStr @ js '' '' @ normalizeTime (trim (grp timeMatch 2)))))"

fun parseDateTime :: "host \<Rightarrow> jsstring option \<Rightarrow> jsstring option \<Rightarrow> date_time" where
  "parseDateTime h (Some dateStr) (Some timeStr) =
     (if dateStr = [] \<or> timeStr = [] then null_result else range_result h dateStr timeStr)"
| "parseDateTime h None timeStr = null_result"
| "parseDateTime h dateStr None = null_result"

section \<open>parseEventDetails\<close>

text \<open>
  The HTML parser (cheerio) is a library. A loaded document is represented by the answers
  to the queries that the script makes: the text of the whole document, the inner HTML and
  the text of the first \<open>blockquote\<close> (\<open>None\<close> when the document has none), the \<open>src\<close> of the
  first \<open>img\<close>, for each \<open>p\<close> its text and whether it contains an \<open>img\<close>, the \<open>href\<close> of each
  \<open>a\<close>, and the \<open>href\<close> of the first link in the element of class \<open>single_event_website\<close>.
  An attribute that is absent is \<open>None\<close>.
\<close>

record dom =
  root_text :: jsstring
  blockquote :: "(jsstring \<times> jsstring) option"
  img_src :: "jsstring option"
  paragraphs :: "(jsstring \<times> bool) list"
  anchors :: "jsstring option list"
  website_href :: "jsstring option"

text \<open>\<open>s.split(regex)\<close> for a pattern that matches no empty string, and \<open>s.split(c)\<close> for
  a character.\<close>

function rx_split :: "bool \<Rightarrow> rx list \<Rightarrow> jsstring \<Rightarrow> jsstring list" where
  "rx_split i r s =
     (case rx_search i r 0 s of
        None \<Rightarrow> [s]
      | Some (p, e, cs) \<Rightarrow>
          (if e = 0 \<or> s = [] then [s] else take p s # rx_split i r (drop e s)))"
  by pat_completeness auto
termination
  by (relation "measure (\<lambda>(i, r, s). length s)") auto

declare rx_split.simps [simp del]

fun split_char :: "jschar \<Rightarrow> jsstring \<Rightarrow> jsstring list" where
  "split_char c [] = [[]]"
| "split_char c (x # xs) =
     (if x = c then [] # split_char c xs
      else (case split_char c xs of [] \<Rightarrow> [[x]] | l # ls \<Rightarrow> (x # l) # ls))"

fun join :: "jsstring \<Rightarrow> jsstring list \<Rightarrow> jsstring" where
  "join sep [] = []"
| "join sep [x] = x"
| "join sep (x # y # ys) = x @ sep @ join sep (y # ys)"

text \<open>The patterns of \<open>parseEventDetails\<close>:
  \<open>/<br\s*\/?>/i\<close>,
  \<open>/(?:Monday|Tuesday|Wednesday|Thursday|Friday|Saturday|Sunday).*\d{4}/\<close>,
  \<open>/^[^\w\s]+\s*/\<close>, \<open>/Time:/i\<close>, \<open>/^[^\w\s]+\s*Time:\s*/i\<close> and \<open>/^[^\w\s]+/\<close>.\<close>

definition brPattern :: "rx list" where
  "brPattern = [lit ''<br'', Rep (Pos [Space]) 0 None, Rep (Pos [Ch 47]) 0 (Some 1), lit ''>'']"

definition weekdayPattern :: "rx list" where
  "weekdayPattern =
     [Alt [js ''Monday'', js ''Tuesday'', js ''Wednesday'', js ''Thursday'', js ''Friday'',
           js ''Saturday'', js ''Sunday''],
      Rep Dot 0 None, Rep (Pos [Digit]) 4 (Some 4)]"

definition glyphPrefixPattern :: "rx list" where
  "glyphPrefixPattern = [Bol, Rep (Neg [Word, Space]) 1 None, Rep (Pos [Space]) 0 None]"

definition timeMarkerPattern :: "rx list" where
  "timeMarkerPattern = [lit ''Time:'']"

definition timePrefixPattern :: "rx list" where
  "timePrefixPattern =
     [Bol, Rep (Neg [Word, Space]) 1 None, Rep (Pos [Space]) 0 None, lit ''Time:'',
      Rep (Pos [Space]) 0 None]"

definition glyphStartPattern :: "rx list" where
  "glyphStartPattern = [Bol, Rep (Neg [Word, Space]) 1 None]"

text \<open>The four variables that the loop over the lines of the blockquote assigns.\<close>

record scan =
  s_date :: "jsstring option"
  s_time :: "jsstring option"
  s_venue :: "jsstring option"
  s_address :: "jsstring option"

definition date_step :: "jsstring \<Rightarrow> scan \<Rightarrow> scan" where
  "date_step line st =
     (if \<not> truthy_str (s_date st) \<and> rx_test False weekdayPattern line
      then st\<lparr>s_date := Some (trim (str_replace False glyphPrefixPattern (\<lambda>cs. []) line))\<rparr>
      else st)"

definition time_step :: "jsstring \<Rightarrow> scan \<Rightarrow> scan" where
  "time_step line st =
     (if \<not> truthy_str (s_time st) \<and> rx_test True timeMarkerPattern line
      then st\<lparr>s_time := Some (trim (str_replace True timePrefixPattern (\<lambda>cs. []) line))\<rparr>
      else st)"

fun address_step :: "jsstring list \<Rightarrow> scan \<Rightarrow> scan" where
  "address_step [] st = st"
| "address_step (next # later) st =
     (if trim next \<noteq> [] \<and> \<not> str_includes (trim next) (js ''Time'')
         \<and> \<not> rx_test False glyphStartPattern (trim next)
      then st\<lparr>s_address := Some (trim next)\<rparr>
      else st)"

definition venue_step :: "nat \<Rightarrow> jsstring \<Rightarrow> jsstring list \<Rightarrow> scan \<Rightarrow> scan" where
  "venue_step i line later st =
     (if \<not> truthy_str (s_venue st) \<and> i > 0 \<and> rx_test False glyphStartPattern line
         \<and> \<not> str_includes line (js ''Time'')
      then address_step later
             (st\<lparr>s_venue := Some (trim (str_replace False glyphPrefixPattern (\<lambda>cs. []) line))\<rparr>)
      else st)"

fun scan_lines :: "nat \<Rightarrow> jsstring list \<Rightarrow> scan \<Rightarrow> scan" where
  "scan_lines i [] st = st"
| "scan_lines i (line # later) st =
     scan_lines (Suc i) later (venue_step i line later (time_step line (date_step line st)))"

text \<open>The description: the texts of the paragraphs up to the first one that contains
  \<open>Time:\<close> or \<open>Find Hotels\<close>, without the empty ones and those with an image.\<close>

fun description_parts :: "(jsstring \<times> bool) list \<Rightarrow> jsstring list" where
  "description_parts [] = []"
| "description_parts ((t, has_img) # ps) =
     (if str_includes (trim t) (js ''Time:'') \<or> str_includes (trim t) (js ''Find Hotels'') then []
      else if trim t \<noteq> [] \<and> \<not> has_img then trim t # description_parts ps
      else description_parts ps)"

text \<open>The loop over the links of the content: the first Luma link and the first Meetup
  link.\<close>

record links =
  lumaUrl :: "jsstring option"
  meetupUrl :: "jsstring option"

definition luma_step :: "jsstring \<Rightarrow> links \<Rightarrow> links" where
  "luma_step href st =
     (if str_includes href (js ''lu.ma/'') \<and> \<not> truthy_str (lumaUrl st)
      then st\<lparr>lumaUrl := Some href\<rparr> else st)"

definition meetup_step :: "jsstring \<Rightarrow> links \<Rightarrow> links" where
  "meetup_step href st =
     (if (str_includes href (js ''meetup.com/'') \<or> str_includes href (js ''meetu.ps/''))
         \<and> \<not> truthy_str (meetupUrl st)
      then st\<lparr>meetupUrl := Some href\<rparr> else st)"

fun scan_anchors :: "jsstring option list \<Rightarrow> links \<Rightarrow> links" where
  "scan_anchors [] st = st"
| "scan_anchors (None # as) st = scan_anchors as st"
| "scan_anchors (Some href # as) st =
     (if href = [] then scan_anchors as st
      else scan_anchors as (meetup_step href (luma_step href st)))"

definition content_rsvp :: "links \<Rightarrow> jsstring option" where
  "content_rsvp st =
     (if truthy_str (lumaUrl st) then lumaUrl st
      else if truthy_str (meetupUrl st) then meetupUrl st
      else None)"

record details =
  dateStr :: "jsstring option"
  timeStr :: "jsstring option"
  venueName :: "jsstring option"
  venueAddress :: "jsstring option"
  imageUrl :: "jsstring option"
  description :: jsstring
  rsvpUrl :: "jsstring option"

definition blockquote_lines :: "(jsstring \<Rightarrow> dom) \<Rightarrow> jsstring \<Rightarrow> jsstring \<Rightarrow> jsstring list" where
  "blockquote_lines load blockquoteHtml blockquoteText =
     (if blockquoteHtml \<noteq> []
      then map (\<lambda>line. trim (root_text (load line))) (rx_split True brPattern blockquoteHtml)
      else map trim (split_char 10 blockquoteText))"

definition details_of :: "dom \<Rightarrow> scan \<Rightarrow> details" where
  "details_of d st =
     \<lparr>dateStr = s_date st, timeStr = s_time st, venueName = s_venue st,
      venueAddress = s_address st, imageUrl = img_src d,
      description = join (js [CHR 0x0A, CHR 0x0A]) (description_parts (paragraphs d)),
      rsvpUrl = content_rsvp (scan_anchors (anchors d) \<lparr>lumaUrl = None, meetupUrl = None\<rparr>)\<rparr>"

definition no_scan :: scan where
  "no_scan = \<lparr>s_date = None, s_time = None, s_venue = None, s_address = None\<rparr>"

text \<open>\<open>parseEventDetails\<close>; \<open>load\<close> is \<open>cheerio.load\<close>. Without a blockquote the text of the
  selection is empty and the result is null.\<close>

fun details_with_blockquote ::
  "(jsstring \<Rightarrow> dom) \<Rightarrow> dom \<Rightarrow> (jsstring \<times> jsstring) option \<Rightarrow> details option" where
  "details_with_blockquote load d None = None"
| "details_with_blockquote load d (Some (blockquoteHtml, blockquoteText)) =
     (if blockquoteText = [] then None
      else Some (details_of d
                  (scan_lines 0 (blockquote_lines load blockquoteHtml blockquoteText) no_scan)))"

definition parseEventDetails :: "(jsstring \<Rightarrow> dom) \<Rightarrow> jsstring \<Rightarrow> details option" where
  "parseEventDetails load htmlContent =
     details_with_blockquote load (load htmlContent) (blockquote (load htmlContent))"

section \<open>The content store and the network\<close>

text \<open>
  The content store (Directus) and the network are outside the repository. The script
  talks to the store through four requests: list the items of a collection whose field
  equals a value (with \<open>limit=1\<close>), create an item, update an item, upload a file. The store
  is modelled by the items it holds, as JSON objects; a request that the store answers
  with an error leaves it as it is. Every request that the script issues, and every page
  or image that it fetches, is recorded in \<open>trace\<close>.
\<close>

type_synonym jsobj = "(string \<times> jsval) list"

text \<open>\<open>x.k\<close>: a property that is absent reads as \<open>undefined\<close>, which is falsy as \<open>null\<close> is.\<close>

definition field :: "jsobj \<Rightarrow> string \<Rightarrow> jsval" where
  "field x k = (case map_of x k of None \<Rightarrow> JNull | Some v \<Rightarrow> v)"

datatype collection = Events | Venues | Tags

datatype request =
    ReadItems collection string jsval
  | CreateItem collection jsobj
  | UpdateItem collection jsval jsobj
  | UploadFile jsstring jsstring
  | Fetch jsstring

record world =
  events :: "jsobj list"
  venues :: "jsobj list"
  tags :: "jsobj list"
  files :: "jsobj list"
  counter :: nat
  trace :: "request list"

fun items :: "collection \<Rightarrow> world \<Rightarrow> jsobj list" where
  "items Events w = events w"
| "items Venues w = venues w"
| "items Tags w = tags w"

fun set_items :: "collection \<Rightarrow> jsobj list \<Rightarrow> world \<Rightarrow> world" where
  "set_items Events xs w = w\<lparr>events := xs\<rparr>"
| "set_items Venues xs w = w\<lparr>venues := xs\<rparr>"
| "set_items Tags xs w = w\<lparr>tags := xs\<rparr>"

definition issue :: "request \<Rightarrow> world \<Rightarrow> world" where
  "issue r w = w\<lparr>trace := trace w @ [r]\<rparr>"

text \<open>The store gives a new item an identifier of its own; identifiers are truthy.\<close>

definition new_id :: "world \<Rightarrow> jsval" where
  "new_id w = JNum (int (counter w) + 1)"

text \<open>An HTTP response: \<open>response.ok\<close>, the body, the \<open>content-type\<close> header.\<close>

record response =
  r_ok :: bool
  r_body :: jsstring
  r_content_type :: "jsstring option"

text \<open>
  What the outside world does while one feed item is processed: the host, the HTML parser,
  the answer to an HTTP GET (\<open>None\<close>: the request raises), the path of a URL (\<open>None\<close>: the
  URL does not parse), and whether the store accepts a request.
\<close>

record env =
  e_host :: host
  cheerio_load :: "jsstring \<Rightarrow> dom"
  http_get :: "jsstring \<Rightarrow> response option"
  url_pathname :: "jsstring \<Rightarrow> jsstring option"
  store_ok :: "request \<Rightarrow> bool"

text \<open>\<open>directusRequest\<close> for the three kinds of request; \<open>None\<close> and \<open>False\<close> stand for the
  exception that a response other than 2xx raises.\<close>

definition read_items ::
  "env \<Rightarrow> collection \<Rightarrow> string \<Rightarrow> jsval \<Rightarrow> world \<Rightarrow> jsobj list option \<times> world" where
  "read_items e c k v w =
     (if store_ok e (ReadItems c k v)
      then Some (take 1 (filter (\<lambda>x. field x k = v) (items c w)))
      else None,
      issue (ReadItems c k v) w)"

definition create_item :: "env \<Rightarrow> collection \<Rightarrow> jsobj \<Rightarrow> world \<Rightarrow> jsval option \<times> world" where
  "create_item e c payload w =
     (if store_ok e (CreateItem c payload)
      then (Some (new_id w),
            set_items c (items c w @ [(''id'', new_id w) # payload])
              (issue (CreateItem c payload) (w\<lparr>counter := Suc (counter w)\<rparr>)))
      else (None, issue (CreateItem c payload) w))"

text \<open>An update replaces the fields that the patch names and keeps the others.\<close>

definition patched :: "jsobj \<Rightarrow> jsobj \<Rightarrow> jsobj" where
  "patched x patch = patch @ filter (\<lambda>kv. fst kv \<notin> set (map fst patch)) x"

definition update_item :: "env \<Rightarrow> collection \<Rightarrow> jsval \<Rightarrow> jsobj \<Rightarrow> world \<Rightarrow> bool \<times> world" where
  "update_item e c ident patch w =
     (if store_ok e (UpdateItem c ident patch)
      then (True,
            set_items c (map (\<lambda>x. if field x ''id'' = ident then patched x patch else x) (items c w))
              (issue (UpdateItem c ident patch) w))
      else (False, issue (UpdateItem c ident patch) w))"

definition upload_file :: "env \<Rightarrow> jsstring \<Rightarrow> jsstring \<Rightarrow> world \<Rightarrow> jsval \<times> world" where
  "upload_file e filename mime w =
     (if store_ok e (UploadFile filename mime)
      then (new_id w,
            issue (UploadFile filename mime)
              (w\<lparr>files := files w @ [[(''id'', new_id w), (''filename_download'', JStr filename),
                                        (''type'', JStr mime)]],
                 counter := Suc (counter w)\<rparr>))
      else (JNull, issue (UploadFile filename mime) w))"

section \<open>Scraping, images, venues and tags\<close>

text \<open>\<open>scrapeEventRsvpLink\<close>: every failure is caught and gives null.\<close>

definition website_link :: "env \<Rightarrow> response option \<Rightarrow> jsstring option" where
  "website_link e resp =
     (case resp of
        None \<Rightarrow> None
      | Some r \<Rightarrow>
          (if \<not> r_ok r then None
           else if truthy_str (website_href (cheerio_load e (r_body r)))
           then website_href (cheerio_load e (r_body r))
           else None))"

definition scrapeEventRsvpLink :: "env \<Rightarrow> jsstring \<Rightarrow> world \<Rightarrow> jsstring option \<times> world" where
  "scrapeEventRsvpLink e eventUrl w =
     (website_link e (http_get e eventUrl), issue (Fetch eventUrl) w)"

text \<open>\<open>downloadAndUploadImage\<close>: the file name is the last segment of the path of the URL, the
  type is the \<open>content-type\<close> of the download.\<close>

definition file_name :: "jsstring \<Rightarrow> jsstring" where
  "file_name path =
     (if last (split_char 47 path) = [] then js ''event-image.jpg'' else last (split_char 47 path))"

definition mime_type :: "response \<Rightarrow> jsstring" where
  "mime_type r =
     (case r_content_type r of
        None \<Rightarrow> js ''image/jpeg''
      | Some t \<Rightarrow> (if t = [] then js ''image/jpeg'' else t))"

definition upload_download :: "env \<Rightarrow> jsstring \<Rightarrow> response option \<Rightarrow> world \<Rightarrow> jsval \<times> world" where
  "upload_download e url resp w =
     (case resp of
        None \<Rightarrow> (JNull, w)
      | Some r \<Rightarrow>
          (if \<not> r_ok r then (JNull, w)
           else (case url_pathname e url of
                   None \<Rightarrow> (JNull, w)
                 | Some path \<Rightarrow> upload_file e (file_name path) (mime_type r) w)))"

fun downloadAndUploadImage :: "env \<Rightarrow> jsstring option \<Rightarrow> world \<Rightarrow> jsval \<times> world" where
  "downloadAndUploadImage e None w = (JNull, w)"
| "downloadAndUploadImage e (Some url) w =
     (if url = [] then (JNull, w)
      else upload_download e url (http_get e url) (issue (Fetch url) w))"

text \<open>Find or create: the answer of the lookup decides. A failed request gives null.\<close>

fun created_id :: "jsval option \<times> world \<Rightarrow> jsval \<times> world" where
  "created_id (None, w) = (JNull, w)"
| "created_id (Some ident, w) = (ident, w)"

fun found_or_create :: "env \<Rightarrow> collection \<Rightarrow> jsobj \<Rightarrow> jsobj list option \<times> world \<Rightarrow> jsval \<times> world" where
  "found_or_create e c payload (None, w) = (JNull, w)"
| "found_or_create e c payload (Some [], w) = created_id (create_item e c payload w)"
| "found_or_create e c payload (Some (x # xs), w) = (field x ''id'', w)"

fun findOrCreateVenue :: "env \<Rightarrow> jsstring option \<Rightarrow> jsstring option \<Rightarrow> world \<Rightarrow> jsval \<times> world" where
  "findOrCreateVenue e None address w = (JNull, w)"
| "findOrCreateVenue e (Some name) address w =
     (if name = [] then (JNull, w)
      else found_or_create e Venues
             [(''name'', JStr name), (''address'', str_val (or_str address (Some [])))]
             (read_items e Venues ''name'' (JStr name) w))"

definition findOrCreateTag :: "env \<Rightarrow> jsstring \<Rightarrow> world \<Rightarrow> jsval \<times> world" where
  "findOrCreateTag e name w =
     (if name = [] then (JNull, w)
      else found_or_create e Tags [(''name'', JStr name)]
             (read_items e Tags ''name'' (JStr name) w))"

section \<open>processRSSItem\<close>

record rss_item =
  title :: jsstring
  link :: jsstring
  guid :: "jsstring option"
  contentEncoded :: jsstring
  contentSnippet :: "jsstring option"

record outcome =
  status :: string
  reason :: "string option"
  item_id :: "jsval option"

definition has_bitplebs :: "jsstring \<Rightarrow> bool" where
  "has_bitplebs t = rx_test True [lit ''bitplebs''] t"

subsection \<open>An event that exists already\<close>

text \<open>
  \<open>updatesNeeded\<close> is built in three steps: the image, when the stored event has none and
  the item has an image URL and the upload gives an identifier; the RSVP URL, when the
  stored event has none and the item has one; the tag, when the title contains "bitplebs",
  the stored event has no tag and the tag is found or created.
\<close>

fun add_if_truthy :: "string \<Rightarrow> jsobj \<Rightarrow> jsval \<times> world \<Rightarrow> jsobj \<times> world" where
  "add_if_truthy k patch (v, w) = (if truthy v then (patch @ [(k, v)], w) else (patch, w))"

definition image_update :: "env \<Rightarrow> details \<Rightarrow> jsobj \<Rightarrow> world \<Rightarrow> jsobj \<times> world" where
  "image_update e parsed existingEvent w =
     (if \<not> truthy (field existingEvent ''image'') \<and> truthy_str (imageUrl parsed)
      then add_if_truthy ''image'' [] (downloadAndUploadImage e (imageUrl parsed) w)
      else ([], w))"

fun rsvp_update :: "jsstring option \<Rightarrow> jsobj \<Rightarrow> jsobj \<times> world \<Rightarrow> jsobj \<times> world" where
  "rsvp_update rsvp existingEvent (patch, w) =
     (if \<not> truthy (field existingEvent ''rsvp_url'') \<and> truthy_str rsvp
      then (patch @ [(''rsvp_url'', str_val rsvp)], w)
      else (patch, w))"

fun tag_update :: "env \<Rightarrow> jsstring \<Rightarrow> jsobj \<Rightarrow> jsobj \<times> world \<Rightarrow> jsobj \<times> world" where
  "tag_update e ttl existingEvent (patch, w) =
     (if has_bitplebs ttl \<and> \<not> truthy (field existingEvent ''tags'')
      then add_if_truthy ''tags'' patch (findOrCreateTag e (js ''bitplebs'') w)
      else (patch, w))"

definition updatesNeeded ::
  "env \<Rightarrow> rss_item \<Rightarrow> jsstring option \<Rightarrow> details \<Rightarrow> jsobj \<Rightarrow> world \<Rightarrow> jsobj \<times> world" where
  "updatesNeeded e item rsvp parsed existingEvent w =
     tag_update e (title item) existingEvent
       (rsvp_update rsvp existingEvent (image_update e parsed existingEvent w))"

definition already_exists :: "jsobj \<Rightarrow> outcome" where
  "already_exists existingEvent =
     \<lparr>status = ''skipped'', reason = Some ''already_exists'',
      item_id = Some (field existingEvent ''id'')\<rparr>"

fun update_outcome :: "jsobj \<Rightarrow> bool \<times> world \<Rightarrow> outcome \<times> world" where
  "update_outcome existingEvent (True, w) =
     (\<lparr>status = ''updated'', reason = Some ''fields_updated'',
       item_id = Some (field existingEvent ''id'')\<rparr>, w)"
| "update_outcome existingEvent (False, w) = (already_exists existingEvent, w)"

fun apply_updates :: "env \<Rightarrow> jsobj \<Rightarrow> jsobj \<times> world \<Rightarrow> outcome \<times> world" where
  "apply_updates e existingEvent (patch, w) =
     (if patch = [] then (already_exists existingEvent, w)
      else update_outcome existingEvent
             (update_item e Events (field existingEvent ''id'') patch w))"

subsection \<open>A new event\<close>

definition image_for :: "env \<Rightarrow> details \<Rightarrow> world \<Rightarrow> jsval \<times> world" where
  "image_for e parsed w =
     (if truthy_str (imageUrl parsed) then downloadAndUploadImage e (imageUrl parsed) w
      else (JNull, w))"

definition venue_for :: "env \<Rightarrow> details \<Rightarrow> world \<Rightarrow> jsval \<times> world" where
  "venue_for e parsed w =
     (if truthy_str (venueName parsed)
      then findOrCreateVenue e (venueName parsed) (venueAddress parsed) w
      else (JNull, w))"

definition tag_for :: "env \<Rightarrow> jsstring \<Rightarrow> world \<Rightarrow> jsval \<times> world" where
  "tag_for e ttl w =
     (if has_bitplebs ttl then findOrCreateTag e (js ''bitplebs'') w else (JNull, w))"

definition eventData ::
  "rss_item \<Rightarrow> jsstring \<Rightarrow> jsstring option \<Rightarrow> details \<Rightarrow> date_time \<Rightarrow> jsval \<Rightarrow> jsval \<Rightarrow> jsval
     \<Rightarrow> jsobj" where
  "eventData item feedSource rsvp parsed dt imageId venueId tagId =
     [(''title'', JStr (title item)),
      (''description'',
         str_val (or_str (or_str (Some (description parsed)) (contentSnippet item)) (Some []))),
      (''start_date_time'', str_val (startDateTime dt)),
      (''end_date_time'', str_val (or_str (endDateTime dt) (startDateTime dt))),
      (''location'', venueId),
      (''image'', imageId),
      (''external_url'', JStr (link item)),
      (''external_id'', str_val (guid item)),
      (''rsvp_url'', str_val (or_str rsvp None)),
      (''source_feed'', JStr feedSource),
      (''is_imported'', JBool True),
      (''raw_description'', JStr (contentEncoded item)),
      (''parsed_venue_name'', str_val (venueName parsed)),
      (''parsed_venue_address'', str_val (venueAddress parsed)),
      (''tags'', tagId),
      (''status'', JStr (js ''published''))]"

fun create_outcome :: "jsval option \<times> world \<Rightarrow> outcome \<times> world" where
  "create_outcome (Some ident, w) =
     (\<lparr>status = ''created'', reason = None, item_id = Some ident\<rparr>, w)"
| "create_outcome (None, w) =
     (\<lparr>status = ''failed'', reason = Some ''create_error'', item_id = None\<rparr>, w)"

fun create_with_tag ::
  "env \<Rightarrow> rss_item \<Rightarrow> jsstring \<Rightarrow> jsstring option \<Rightarrow> details \<Rightarrow> date_time \<Rightarrow> jsval \<Rightarrow> jsval
     \<Rightarrow> jsval \<times> world \<Rightarrow> outcome \<times> world" where
  "create_with_tag e item feedSource rsvp parsed dt imageId venueId (tagId, w) =
     create_outcome
       (create_item e Events (eventData item feedSource rsvp parsed dt imageId venueId tagId) w)"

fun create_with_venue ::
  "env \<Rightarrow> rss_item \<Rightarrow> jsstring \<Rightarrow> jsstring option \<Rightarrow> details \<Rightarrow> date_time \<Rightarrow> jsval
     \<Rightarrow> jsval \<times> world \<Rightarrow> outcome \<times> world" where
  "create_with_venue e item feedSource rsvp parsed dt imageId (venueId, w) =
     create_with_tag e item feedSource rsvp parsed dt imageId venueId (tag_for e (title item) w)"

fun create_with_image ::
  "env \<Rightarrow> rss_item \<Rightarrow> jsstring \<Rightarrow> jsstring option \<Rightarrow> details \<Rightarrow> date_time
     \<Rightarrow> jsval \<times> world \<Rightarrow> outcome \<times> world" where
  "create_with_image e item feedSource rsvp parsed dt (imageId, w) =
     create_with_venue e item feedSource rsvp parsed dt imageId (venue_for e parsed w)"

definition create_event ::
  "env \<Rightarrow> rss_item \<Rightarrow> jsstring \<Rightarrow> jsstring option \<Rightarrow> details \<Rightarrow> date_time \<Rightarrow> world
     \<Rightarrow> outcome \<times> world" where
  "create_event e item feedSource rsvp parsed dt w =
     create_with_image e item feedSource rsvp parsed dt (image_for e parsed w)"

subsection \<open>The whole item\<close>

text \<open>
  After the lookup by \<open>external_url\<close>: an exception of the lookup is caught and logged, after
  which the script goes on to create the event, as it does when the lookup finds nothing.
\<close>

fun after_lookup ::
  "env \<Rightarrow> rss_item \<Rightarrow> jsstring \<Rightarrow> jsstring option \<Rightarrow> details \<Rightarrow> date_time
     \<Rightarrow> jsobj list option \<times> world \<Rightarrow> outcome \<times> world" where
  "after_lookup e item feedSource rsvp parsed dt (None, w) =
     create_event e item feedSource rsvp parsed dt w"
| "after_lookup e item feedSource rsvp parsed dt (Some [], w) =
     create_event e item feedSource rsvp parsed dt w"
| "after_lookup e item feedSource rsvp parsed dt (Some (existingEvent # xs), w) =
     apply_updates e existingEvent (updatesNeeded e item rsvp parsed existingEvent w)"

text \<open>The date checks: a failed parse, then an event in the past (\<open>eventDate.isBefore(now)\<close>,
  with the timestamp read by \<open>dayjs\<close> in the zone of the host), then the lookup.\<close>

fun checked_start ::
  "env \<Rightarrow> rss_item \<Rightarrow> jsstring \<Rightarrow> jsstring option \<Rightarrow> details \<Rightarrow> date_time \<Rightarrow> jsstring option
     \<Rightarrow> world \<Rightarrow> outcome \<times> world" where
  "checked_start e item feedSource rsvp parsed dt None w =
     (\<lparr>status = ''failed'', reason = Some ''date_parse_error'', item_id = None\<rparr>, w)"
| "checked_start e item feedSource rsvp parsed dt (Some start) w =
     (if start = []
      then (\<lparr>status = ''failed'', reason = Some ''date_parse_error'', item_id = None\<rparr>, w)
      else if local_time (e_host e) start < now (e_host e)
      then (\<lparr>status = ''skipped'', reason = Some ''past_event'', item_id = None\<rparr>, w)
      else after_lookup e item feedSource rsvp parsed dt
             (read_items e Events ''external_url'' (JStr (link item)) w))"

definition after_dates ::
  "env \<Rightarrow> rss_item \<Rightarrow> jsstring \<Rightarrow> jsstring option \<Rightarrow> details \<Rightarrow> date_time \<Rightarrow> world
     \<Rightarrow> outcome \<times> world" where
  "after_dates e item feedSource rsvp parsed dt w =
     checked_start e item feedSource rsvp parsed dt (startDateTime dt) w"

fun after_scrape ::
  "env \<Rightarrow> rss_item \<Rightarrow> jsstring \<Rightarrow> details \<Rightarrow> jsstring option \<times> world \<Rightarrow> outcome \<times> world" where
  "after_scrape e item feedSource parsed (scrapedRsvpUrl, w) =
     after_dates e item feedSource (or_str scrapedRsvpUrl (rsvpUrl parsed)) parsed
       (parseDateTime (e_host e) (dateStr parsed) (timeStr parsed)) w"

definition processRSSItem ::
  "env \<Rightarrow> rss_item \<Rightarrow> jsstring \<Rightarrow> jsstring \<Rightarrow> world \<Rightarrow> outcome \<times> world" where
  "processRSSItem e item feedSource feedName w =
     (case parseEventDetails (cheerio_load e) (contentEncoded item) of
        None \<Rightarrow> (\<lparr>status = ''failed'', reason = Some ''parse_error'', item_id = None\<rparr>, w)
      | Some parsed \<Rightarrow>
          after_scrape e item feedSource parsed (scrapeEventRsvpLink e (link item) w))"

section \<open>processFeed and main\<close>

record counts =
  total :: nat
  created :: nat
  updated :: nat
  skipped :: nat
  failed :: nat

definition zero_counts :: counts where
  "zero_counts = \<lparr>total = 0, created = 0, updated = 0, skipped = 0, failed = 0\<rparr>"

definition tally :: "string \<Rightarrow> counts \<Rightarrow> counts" where
  "tally st c =
     (if st = ''created'' then c\<lparr>created := created c + 1\<rparr>
      else if st = ''updated'' then c\<lparr>updated := updated c + 1\<rparr>
      else if st = ''skipped'' then c\<lparr>skipped := skipped c + 1\<rparr>
      else if st = ''failed'' then c\<lparr>failed := failed c + 1\<rparr>
      else c)"

fun tallied :: "counts \<Rightarrow> outcome \<times> world \<Rightarrow> counts \<times> world" where
  "tallied c (r, w) = (tally (status r) c, w)"

text \<open>The items of a feed are processed in feed order, each with the outside world as it
  is at that time.\<close>

fun process_items ::
  "jsstring \<Rightarrow> jsstring \<Rightarrow> (env \<times> rss_item) list \<Rightarrow> counts \<times> world \<Rightarrow> counts \<times> world" where
  "process_items feedSource feedName [] cw = cw"
| "process_items feedSource feedName ((e, item) # its) (c, w) =
     process_items feedSource feedName its (tallied c (processRSSItem e item feedSource feedName w))"

record feed_config =
  f_url :: jsstring
  f_source :: jsstring
  f_name :: jsstring

definition RSS_FEEDS :: "feed_config list" where
  "RSS_FEEDS =
     [\<lparr>f_url = js ''https://bitcoinonly.events/tag/washington-dc/feed/'',
       f_source = js ''washington-dc'', f_name = js ''Washington DC''\<rparr>,
      \<lparr>f_url = js ''https://bitcoinonly.events/tag/maryland/feed/'',
       f_source = js ''maryland'', f_name = js ''Maryland''\<rparr>,
      \<lparr>f_url = js ''https://bitcoinonly.events/tag/virginia/feed/'',
       f_source = js ''virginia'', f_name = js ''Virginia''\<rparr>]"

text \<open>What fetching and parsing a feed gives: an error, or the items, each with the outside
  world in which it will be processed.\<close>

datatype feed_fetch = FeedError | FeedItems "(env \<times> rss_item) list"

fun processFeed :: "feed_config \<Rightarrow> feed_fetch \<Rightarrow> world \<Rightarrow> counts \<times> world" where
  "processFeed cfg FeedError w = (zero_counts, issue (Fetch (f_url cfg)) w)"
| "processFeed cfg (FeedItems its) w =
     process_items (f_source cfg) (f_name cfg) its
       (zero_counts\<lparr>total := length its\<rparr>, issue (Fetch (f_url cfg)) w)"

definition add_counts :: "counts \<Rightarrow> counts \<Rightarrow> counts" where
  "add_counts a b =
     \<lparr>total = total a + total b, created = created a + created b,
      updated = updated a + updated b, skipped = skipped a + skipped b,
      failed = failed a + failed b\<rparr>"

fun added :: "counts \<Rightarrow> counts \<times> world \<Rightarrow> counts \<times> world" where
  "added overall (results, w) = (add_counts overall results, w)"

fun process_feeds ::
  "(feed_config \<Rightarrow> feed_fetch) \<Rightarrow> feed_config list \<Rightarrow> counts \<times> world \<Rightarrow> counts \<times> world" where
  "process_feeds answer [] cw = cw"
| "process_feeds answer (cfg # cfgs) (overall, w) =
     process_feeds answer cfgs (added overall (processFeed cfg (answer cfg) w))"

text \<open>\<open>main\<close>: without a token the process exits with code 1 before any request; otherwise
  the feeds are processed in the order of their declaration and the exit code is 0.\<close>

definition main ::
  "jsstring option \<Rightarrow> (feed_config \<Rightarrow> feed_fetch) \<Rightarrow> world \<Rightarrow> nat \<times> counts \<times> world" where
  "main token answer w =
     (if \<not> truthy_str token then (1, zero_counts, w)
      else (0, process_feeds answer RSS_FEEDS (zero_counts, w)))"

text \<open>Any number of runs of the pipeline, each with a token.\<close>

fun pipeline_runs :: "(feed_config \<Rightarrow> feed_fetch) list \<Rightarrow> world \<Rightarrow> world" where
  "pipeline_runs [] w = w"
| "pipeline_runs (answer # answers) w =
     pipeline_runs answers (snd (snd (main (Some (js ''token'')) answer w)))"

section \<open>Notions used to state the properties\<close>

text \<open>\<open>only P w w'\<close>: from \<open>w\<close> to \<open>w'\<close> the trace has grown, and every request added
  satisfies \<open>P\<close>.\<close>

definition only :: "(request \<Rightarrow> bool) \<Rightarrow> world \<Rightarrow> world \<Rightarrow> bool" where
  "only P w w' \<longleftrightarrow> (\<exists>ts. trace w' = trace w @ ts \<and> (\<forall>r \<in> set ts. P r))"

text \<open>The requests that neither create nor update an event: fetches, uploads, lookups, and
  the creation of venues and tags.\<close>

fun auxiliary :: "request \<Rightarrow> bool" where
  "auxiliary (CreateItem Events payload) = False"
| "auxiliary (UpdateItem c ident patch) = False"
| "auxiliary r = True"

text \<open>A back-fill patch for a stored event: every field that it names is one of \<open>image\<close>,
  \<open>rsvp_url\<close> and \<open>tags\<close>, is empty on the stored event, and gets a value that is not
  empty.\<close>

definition backfill :: "jsobj \<Rightarrow> jsobj \<Rightarrow> bool" where
  "backfill stored patch \<longleftrightarrow>
     (\<forall>(k, v) \<in> set patch.
        k \<in> {''image'', ''rsvp_url'', ''tags''} \<and> \<not> truthy (field stored k) \<and> truthy v)"

text \<open>The stored event that the lookup by \<open>external_url\<close> returns: the first with that URL.\<close>

definition stored_event :: "world \<Rightarrow> jsstring \<Rightarrow> jsobj option" where
  "stored_event w u = find (\<lambda>x. field x ''external_url'' = JStr u) (events w)"

text \<open>The dates that \<open>processRSSItem\<close> resolves for an item.\<close>

definition item_dates :: "env \<Rightarrow> rss_item \<Rightarrow> date_time" where
  "item_dates e item =
     (case parseEventDetails (cheerio_load e) (contentEncoded item) of
        None \<Rightarrow> null_result
      | Some parsed \<Rightarrow> parseDateTime (e_host e) (dateStr parsed) (timeStr parsed))"

text \<open>The instant that a timestamp without zone denotes in America/New_York: the time value
  of \<open>dayjs.tz(s, 'YYYY-MM-DDTHH:mm:ss', 'America/New_York')\<close>.\<close>

definition new_york_instant :: "host \<Rightarrow> jsstring \<Rightarrow> int option" where
  "new_york_instant h s = map_option fst (dayjs_tz_instance h s)"


text \<open>
  The RSVP URL as the specification words it. A link is a Luma link when the host of its
  target is the domain \<open>lu.ma\<close> or lies under it, and a Meetup link when the host is or lies
  under \<open>meetup.com\<close> or \<open>meetu.ps\<close>. The host of a URL is what stands between \<open>://\<close> and
  the next \<open>/\<close>, \<open>?\<close>, \<open>#\<close> or \<open>:\<close>. The URL is the link of the website field of the event
  page when the scrape found one; otherwise the first Luma link of the content; otherwise
  the first Meetup link of the content; otherwise null.
\<close>

fun after_scheme :: "jsstring \<Rightarrow> jsstring" where
  "after_scheme (a # b # c # s) =
     (if a = 58 \<and> b = 47 \<and> c = 47 then s else after_scheme (b # c # s))"
| "after_scheme s = []"









text \<open>At most one stored event for every source URL; an outside world in which the lookup
  of an event by its URL is answered.\<close>

definition url_unique :: "world \<Rightarrow> bool" where
  "url_unique w \<longleftrightarrow>
     (\<forall>u. length (filter (\<lambda>x. field x ''external_url'' = JStr u) (events w)) \<le> 1)"

definition lookup_answered :: "env \<Rightarrow> bool" where
  "lookup_answered e \<longleftrightarrow> (\<forall>u. store_ok e (ReadItems Events ''external_url'' (JStr u)))"

fun feed_answered :: "feed_fetch \<Rightarrow> bool" where
  "feed_answered FeedError = True"
| "feed_answered (FeedItems its) = (\<forall>(e, item) \<in> set its. lookup_answered e)"

section \<open>Sample inputs\<close>

text \<open>
  Hosts whose zone database puts New York at UTC-5 and whose own zone has a constant
  offset, in which they read a timestamp without zone: \<open>est_host\<close> is five hours behind UTC
  as New York is in winter, \<open>pst_host\<close> eight hours as the Pacific coast is.
\<close>

fun naive_fields :: "int list \<Rightarrow> int option" where
  "naive_fields [y, mo, d, hh, mi, ss] = Date_UTC y (mo - 1) d hh mi ss 0"
| "naive_fields vs = None"

definition zone_time :: "int \<Rightarrow> jsstring \<Rightarrow> int" where
  "zone_time off s =
     (case run_parser iso_format 0 s of
        None \<Rightarrow> 0
      | Some vs \<Rightarrow> (case naive_fields vs of None \<Rightarrow> 0 | Some t \<Rightarrow> t - off))"

definition est_host :: "int \<Rightarrow> host" where
  "est_host t =
     \<lparr>now = t, cur_year = 2026, cur_month = 10, cur_date = 2,
      tzOffset = (\<lambda>u. - 18000000), local_offset = (\<lambda>u. - 18000000),
      local_time = zone_time (- 18000000)\<rparr>"

definition pst_host :: "int \<Rightarrow> host" where
  "pst_host t =
     \<lparr>now = t, cur_year = 2026, cur_month = 10, cur_date = 2,
      tzOffset = (\<lambda>u. - 18000000), local_offset = (\<lambda>u. - 28800000),
      local_time = zone_time (- 28800000)\<rparr>"

text \<open>
  Documents. The content of an event: a blockquote of two lines with the date and the
  time, an image, and one link for each of the given targets. The content of an item
  without blockquote. The page of an event with a website field. A fragment without tags,
  whose text is the fragment itself. \<open>sample_load\<close> parses these.
\<close>

definition event_lines :: jsstring where
  "event_lines = js ''Monday, January 26, 2026<br>'' @ [0x23F0] @ js '' Time: 6:00 PM - 10:00 PM''"

definition event_text :: jsstring where
  "event_text = js ''Monday, January 26, 2026'' @ [0x23F0] @ js '' Time: 6:00 PM - 10:00 PM''"

definition link_html :: "jsstring \<Rightarrow> jsstring" where
  "link_html href = js ''<a href='' @ href @ js ''>RSVP</a>''"

definition event_content :: "jsstring list \<Rightarrow> jsstring" where
  "event_content hrefs =
     js ''<blockquote>'' @ event_lines @ js ''</blockquote><img src=http://img/a.jpg>'' @
     concat (map link_html hrefs)"

definition event_dom :: "jsstring list \<Rightarrow> dom" where
  "event_dom hrefs =
     \<lparr>root_text = event_text @ concat (map (\<lambda>href. js ''RSVP'') hrefs),
      blockquote = Some (event_lines, event_text),
      img_src = Some (js ''http://img/a.jpg''),
      paragraphs = [],
      anchors = map Some hrefs,
      website_href = None\<rparr>"

definition luma_href :: jsstring where
  "luma_href = js ''https://lu.ma/x''"

definition meetup_href :: jsstring where
  "meetup_href = js ''https://www.meetup.com/dc-bitcoin/events/1/''"

definition redirect_href :: jsstring where
  "redirect_href = js ''https://evil.example/?u=lu.ma/x''"

definition website_href_of_page :: jsstring where
  "website_href_of_page = js ''https://tickets.example/e/1''"

definition sample_content :: jsstring where
  "sample_content = event_content [luma_href]"

definition sample_dom :: dom where
  "sample_dom = event_dom [luma_href]"

definition two_links_content :: jsstring where
  "two_links_content = event_content [meetup_href, luma_href]"

definition redirect_content :: jsstring where
  "redirect_content = event_content [meetup_href, redirect_href]"

definition meetup_content :: jsstring where
  "meetup_content = event_content [meetup_href]"

definition bare_content :: jsstring where
  "bare_content = event_content []"

definition plain_content :: jsstring where
  "plain_content = js ''<p>Join us</p>''"

definition plain_dom :: dom where
  "plain_dom =
     \<lparr>root_text = js ''Join us'', blockquote = None, img_src = None,
      paragraphs = [(js ''Join us'', False)], anchors = [], website_href = None\<rparr>"

definition page_content :: jsstring where
  "page_content =
     js ''<div class=single_event_website><a href=https://tickets.example/e/1>Website</a></div>''"

definition page_dom :: dom where
  "page_dom =
     \<lparr>root_text = js ''Website'', blockquote = None, img_src = None, paragraphs = [],
      anchors = [Some website_href_of_page], website_href = Some website_href_of_page\<rparr>"

definition text_dom :: "jsstring \<Rightarrow> dom" where
  "text_dom s =
     \<lparr>root_text = s, blockquote = None, img_src = None, paragraphs = [], anchors = [],
      website_href = None\<rparr>"

definition sample_load :: "jsstring \<Rightarrow> dom" where
  "sample_load s =
     (if s = sample_content then sample_dom
      else if s = two_links_content then event_dom [meetup_href, luma_href]
      else if s = redirect_content then event_dom [meetup_href, redirect_href]
      else if s = meetup_content then event_dom [meetup_href]
      else if s = bare_content then event_dom []
      else if s = plain_content then plain_dom
      else if s = page_content then page_dom
      else text_dom s)"

text \<open>
  The network: nothing can be fetched; the page of the event is served; the server answers
  the request for the page with an error status and the same body. The store: every
  request is answered. The path of a URL is what follows its host.
\<close>

definition no_network :: "jsstring \<Rightarrow> response option" where
  "no_network u = None"

definition page_served :: "jsstring \<Rightarrow> response option" where
  "page_served u =
     (if u = js ''http://e/1''
      then Some \<lparr>r_ok = True, r_body = page_content, r_content_type = Some (js ''text/html'')\<rparr>
      else None)"

definition page_error :: "jsstring \<Rightarrow> response option" where
  "page_error u =
     (if u = js ''http://e/1''
      then Some \<lparr>r_ok = False, r_body = page_content, r_content_type = Some (js ''text/html'')\<rparr>
      else None)"

definition accept_all :: "request \<Rightarrow> bool" where
  "accept_all r = True"

definition url_path :: "jsstring \<Rightarrow> jsstring option" where
  "url_path u = Some (dropWhile (\<lambda>c. c \<noteq> 47) (after_scheme u))"

definition host_env ::
  "host \<Rightarrow> (jsstring \<Rightarrow> response option) \<Rightarrow> (request \<Rightarrow> bool) \<Rightarrow> env" where
  "host_env h get accept =
     \<lparr>e_host = h, cheerio_load = sample_load, http_get = get, url_pathname = url_path,
      store_ok = accept\<rparr>"

definition sample_env :: "int \<Rightarrow> (jsstring \<Rightarrow> response option) \<Rightarrow> (request \<Rightarrow> bool) \<Rightarrow> env" where
  "sample_env t get accept = host_env (est_host t) get accept"

text \<open>Half an hour after 18:00 in New York on 26 January 2026, without network, on a host
  in New York's zone and on a host in Pacific time.\<close>

definition eastern_env :: env where
  "eastern_env = host_env (est_host 1769470200000) no_network accept_all"

definition pacific_env :: env where
  "pacific_env = host_env (pst_host 1769470200000) no_network accept_all"

text \<open>In November 2023, before the event: the page cannot be fetched, is served, or is
  answered with an error status.\<close>

definition offline_env :: env where
  "offline_env = sample_env 1700000000000 no_network accept_all"

definition served_env :: env where
  "served_env = sample_env 1700000000000 page_served accept_all"

definition error_env :: env where
  "error_env = sample_env 1700000000000 page_error accept_all"

text \<open>Items with these contents, and a store without items.\<close>

definition item_with :: "jsstring \<Rightarrow> rss_item" where
  "item_with content =
     \<lparr>title = js ''Meetup'', link = js ''http://e/1'', guid = None, contentEncoded = content,
      contentSnippet = None\<rparr>"

definition sample_item :: rss_item where
  "sample_item = item_with sample_content"

definition empty_world :: world where
  "empty_world = \<lparr>events = [], venues = [], tags = [], files = [], counter = 0, trace = []\<rparr>"

text \<open>What the content of an event parses to when its links give the RSVP URL \<open>rsvp\<close>, its
  dates, and the event data that an item is created with when the image cannot be
  fetched.\<close>

definition event_parsed :: "jsstring option \<Rightarrow> details" where
  "event_parsed rsvp =
     \<lparr>dateStr = Some (js ''Monday, January 26, 2026''),
      timeStr = Some (js ''6:00 PM - 10:00 PM''),
      venueName = None, venueAddress = None,
      imageUrl = Some (js ''http://img/a.jpg''), description = [],
      rsvpUrl = rsvp\<rparr>"

definition sample_parsed :: details where
  "sample_parsed = event_parsed (Some luma_href)"

definition sample_dt :: date_time where
  "sample_dt =
     \<lparr>startDateTime = Some (js ''2026-01-26T18:00:00''),
      endDateTime = Some (js ''2026-01-26T22:00:00'')\<rparr>"

definition payload_of :: "rss_item \<Rightarrow> jsstring option \<Rightarrow> jsstring option \<Rightarrow> jsobj" where
  "payload_of item rsvp content_rsvp_url =
     eventData item (js ''maryland'') rsvp (event_parsed content_rsvp_url) sample_dt
       JNull JNull JNull"

definition created_with :: "jsobj \<Rightarrow> world" where
  "created_with payload =
     \<lparr>events = [(''id'', JNum 1) # payload], venues = [], tags = [], files = [],
      counter = 1,
      trace = [Fetch (js ''http://e/1''),
               ReadItems Events ''external_url'' (JStr (js ''http://e/1'')),
               Fetch (js ''http://img/a.jpg''),
               CreateItem Events payload]\<rparr>"

definition sample_payload :: jsobj where
  "sample_payload = payload_of sample_item (Some luma_href) (Some luma_href)"

definition sample_created :: world where
  "sample_created = created_with sample_payload"


section \<open>Evaluation rules\<close>

lemmas rx_ev = str_match_def str_replace_def rx_test_def rx_search.simps rx_rep.simps run_def
  is_digit_def is_space_def is_word_def is_line_terminator_def canonicalize_def js_def
  advance_def grp_def lit_def lit_prefix_def trim_def toUpperCase_def

lemmas date_ev = dayjs_tz_def dayjs_tz_instance_def offset_of_input_def
  localTimezoneOffset_def local_fields_def parseFormattedInput_def iso_format_def match4_def
  match2_def match1to2_def parseInt_def Date_UTC_def full_year_def TimeClip_def MakeDate_def MakeDay_def
  MakeTime_def DayFromYear_def InLeapYear_def month_start_def fixOffset_def fixOffset1_def
  fixOffset2_def fixOffset3_def format_naive_def civil_from_days_def civil_of_era_day_def
  civil_of_era_year_def civil_of_year_day_def civil_of_march_day_def pad2_def padStart_def
  String_def digits.simps

lemmas pdt_ev = range_result_def matched_result_def lenient_result_def components_result_def
  zoned_result_def iso_string_def parseComponents_def am_hour_def pm_hour_def monthNames_def
  null_result_def timeRangePattern_def meridiemPattern_def normalizeTime_def
  dateTimePattern_def lenientPattern_def

lemmas ped_ev = parseEventDetails_def blockquote_lines_def details_of_def no_scan_def
  content_rsvp_def luma_step_def meetup_step_def venue_step_def time_step_def date_step_def
  brPattern_def weekdayPattern_def glyphPrefixPattern_def timeMarkerPattern_def
  timePrefixPattern_def glyphStartPattern_def rx_split.simps

lemmas store_ev = field_def issue_def new_id_def read_items_def create_item_def patched_def
  update_item_def upload_file_def website_link_def scrapeEventRsvpLink_def file_name_def
  mime_type_def upload_download_def findOrCreateTag_def

lemmas item_ev = has_bitplebs_def image_update_def updatesNeeded_def already_exists_def
  image_for_def venue_for_def tag_for_def eventData_def create_event_def after_dates_def
  processRSSItem_def or_str_def

lemmas doc_ev = sample_load_def sample_content_def two_links_content_def redirect_content_def
  plain_content_def page_content_def event_content_def event_dom_def event_lines_def
  event_text_def link_html_def meetup_content_def bare_content_def luma_href_def meetup_href_def redirect_href_def
  website_href_of_page_def sample_dom_def plain_dom_def page_dom_def text_dom_def

lemmas sample_ev = est_host_def sample_env_def host_env_def sample_item_def item_with_def
  empty_world_def no_network_def accept_all_def eastern_env_def pacific_env_def offline_env_def
  served_env_def error_env_def

lemma sample_loads:
  "sample_load sample_content = sample_dom"
  "sample_load two_links_content = event_dom [meetup_href, luma_href]"
  "sample_load redirect_content = event_dom [meetup_href, redirect_href]"
  "sample_load meetup_content = event_dom [meetup_href]"
  "sample_load bare_content = event_dom []"
  "sample_load plain_content = plain_dom"
  "sample_load page_content = page_dom"
  by (simp_all add: sample_load_def sample_content_def two_links_content_def
        redirect_content_def meetup_content_def bare_content_def plain_content_def
        page_content_def event_content_def event_lines_def link_html_def luma_href_def
        meetup_href_def redirect_href_def js_def)

lemma sample_env_fields:
  "cheerio_load (sample_env t get accept) = sample_load"
  "http_get (sample_env t get accept) = get"
  "store_ok (sample_env t get accept) = accept"
  "e_host (sample_env t get accept) = est_host t"
  by (simp_all add: sample_env_def host_env_def)

section \<open>The date and time resolver\<close>

text \<open>
  C5. For the date "Monday, January 26, 2026" and the time "6:00 PM (em dash) 10:00 PM EST"
  the resolver is to give 18:00 and 22:00 on 2026-01-26. The em dash U+2014 is not in the
  character class of the time-range pattern as the source file holds it, so on every host
  the script finds no time range and returns null for both timestamps.
\<close>

theorem C5_em_dash_range_is_rejected:
  "parseDateTime h (Some (js ''Monday, January 26, 2026''))
     (Some (js ''6:00 PM '' @ [0x2014] @ js '' 10:00 PM EST'')) = null_result"
  by (simp add: range_result_def timeRangePattern_def rx_ev)


text \<open>Whenever \<open>parseDateTime\<close> gives a timestamp it gives both, formatted by the library.\<close>

lemma format_fields_nonempty: "format_fields c t \<noteq> []"
  by (cases c) (simp add: js_def)

lemma format_naive_nonempty: "format_naive w \<noteq> []"
  by (simp add: format_naive_def format_fields_nonempty)

lemma zoned_result_cases:
  "zoned_result h sc ec = null_result \<or>
   (\<exists>s t. zoned_result h sc ec =
      \<lparr>startDateTime = Some (format_naive s), endDateTime = Some (format_naive t)\<rparr>)"
  by (auto simp: zoned_result_def split: option.splits)

lemma components_result_cases:
  "components_result h sm em = null_result \<or>
   (\<exists>s t. components_result h sm em =
      \<lparr>startDateTime = Some (format_naive s), endDateTime = Some (format_naive t)\<rparr>)"
  using zoned_result_cases by (auto simp: components_result_def split: option.splits)

lemma lenient_result_cases:
  "lenient_result h ts te = null_result \<or>
   (\<exists>s t. lenient_result h ts te =
      \<lparr>startDateTime = Some (format_naive s), endDateTime = Some (format_naive t)\<rparr>)"
  using components_result_cases by (auto simp: lenient_result_def split: option.splits)

lemma matched_result_cases:
  "matched_result h ts te = null_result \<or>
   (\<exists>s t. matched_result h ts te =
      \<lparr>startDateTime = Some (format_naive s), endDateTime = Some (format_naive t)\<rparr>)"
  using components_result_cases lenient_result_cases
  by (auto simp: matched_result_def split: option.splits)

lemma range_result_cases:
  "range_result h d t = null_result \<or>
   (\<exists>s u. range_result h d t =
      \<lparr>startDateTime = Some (format_naive s), endDateTime = Some (format_naive u)\<rparr>)"
  using matched_result_cases by (auto simp: range_result_def split: option.splits)

lemma parseDateTime_cases:
  "parseDateTime h d t = null_result \<or>
   (\<exists>s u. parseDateTime h d t =
      \<lparr>startDateTime = Some (format_naive s), endDateTime = Some (format_naive u)\<rparr>)"
proof (cases d)
  case None
  then show ?thesis by simp
next
  case (Some ds)
  show ?thesis
  proof (cases t)
    case None
    with Some show ?thesis by simp
  next
    case (Some ts)
    with \<open>d = Some ds\<close> range_result_cases [of h ds ts] show ?thesis by auto
  qed
qed

lemma parseDateTime_start_nonempty:
  "startDateTime (parseDateTime h d t) = Some s \<Longrightarrow> s \<noteq> []"
  using parseDateTime_cases [of h d t] format_naive_nonempty
  by (auto simp: null_result_def)

section \<open>The reconciliation of one item\<close>

text \<open>
  C8. When the content of a feed item has no blockquote, \<open>parseEventDetails\<close> returns null,
  \<open>processRSSItem\<close> reports the item as failed with reason parse_error, and the store and the
  trace of requests are as before: no request of any kind was issued for the item.
\<close>

theorem C8_no_blockquote_is_parse_error:
  assumes "blockquote (cheerio_load e (contentEncoded item)) = None"
  shows "parseEventDetails (cheerio_load e) (contentEncoded item) = None \<and>
         processRSSItem e item feedSource feedName w =
           (\<lparr>status = ''failed'', reason = Some ''parse_error'', item_id = None\<rparr>, w)"
  using assms by (simp add: parseEventDetails_def processRSSItem_def)

theorem C8_witness:
  "blockquote (cheerio_load offline_env (contentEncoded (item_with plain_content))) = None \<and>
   processRSSItem offline_env (item_with plain_content) (js ''maryland'') (js ''Maryland'')
       empty_world =
     (\<lparr>status = ''failed'', reason = Some ''parse_error'', item_id = None\<rparr>, empty_world)"
  using C8_no_blockquote_is_parse_error
    [of offline_env "item_with plain_content" "js ''maryland''" "js ''Maryland''" empty_world]
  by (simp add: offline_env_def sample_env_fields item_with_def sample_loads plain_dom_def)

text \<open>
  The past check. When the content parses, the dates resolve and the start timestamp, as
  the host reads it in its own zone, is strictly before the current time, \<open>processRSSItem\<close>
  reports skipped with reason past_event. The only request added to the trace is the
  fetch of the event page: no lookup, no create and no update reaches the store, whose
  items are as before.
\<close>

lemma past_reading_is_skipped:
  assumes "parseEventDetails (cheerio_load e) (contentEncoded item) = Some parsed"
    and "startDateTime (parseDateTime (e_host e) (dateStr parsed) (timeStr parsed)) = Some start"
    and "local_time (e_host e) start < now (e_host e)"
  shows "processRSSItem e item feedSource feedName w =
           (\<lparr>status = ''skipped'', reason = Some ''past_event'', item_id = None\<rparr>,
            issue (Fetch (link item)) w)"
  using assms parseDateTime_start_nonempty [OF assms(2)]
  by (simp add: processRSSItem_def scrapeEventRsvpLink_def after_dates_def)

text \<open>The sample documents and dates, and the run of an item with the content of an event
  that is not past, whose image cannot be fetched, on a store that answers.\<close>

lemma js_eq_Nil [simp]: "js s = [] \<longleftrightarrow> s = []"
  by (simp add: js_def)

lemma event_scan:
  "scan_lines 0 (blockquote_lines sample_load event_lines event_text) no_scan =
     \<lparr>s_date = Some (js ''Monday, January 26, 2026''), s_time = Some (js ''6:00 PM - 10:00 PM''),
      s_venue = None, s_address = None\<rparr>"
  by (simp add: ped_ev rx_ev doc_ev)

lemma event_details:
  assumes "blockquote d = Some (event_lines, event_text)"
    and "img_src d = Some (js ''http://img/a.jpg'')"
    and "paragraphs d = []"
    and "sample_load content = d"
  shows "parseEventDetails sample_load content =
     Some (event_parsed
             (content_rsvp (scan_anchors (anchors d) \<lparr>lumaUrl = None, meetupUrl = None\<rparr>)))"
  using assms
  by (simp add: parseEventDetails_def event_scan details_of_def event_parsed_def)
     (simp add: event_text_def js_def)

lemma sample_details:
  "parseEventDetails sample_load sample_content = Some sample_parsed"
  using event_details [of sample_dom sample_content]
  by (simp add: sample_loads sample_dom_def event_dom_def sample_parsed_def content_rsvp_def
        luma_step_def meetup_step_def luma_href_def js_def)

lemma sample_dates:
  "parseDateTime (est_host t) (Some (js ''Monday, January 26, 2026''))
     (Some (js ''6:00 PM - 10:00 PM'')) = sample_dt"
  by (simp add: est_host_def rx_ev date_ev pdt_ev sample_dt_def)

lemma pacific_dates:
  "parseDateTime (pst_host t) (Some (js ''Monday, January 26, 2026''))
     (Some (js ''6:00 PM - 10:00 PM'')) = sample_dt"
  by (simp add: pst_host_def rx_ev date_ev pdt_ev sample_dt_def)

lemma eastern_reading:
  "local_time (est_host t) (js ''2026-01-26T18:00:00'') = 1769468400000"
  by (simp add: est_host_def zone_time_def rx_ev date_ev)

lemma pacific_reading:
  "local_time (pst_host t) (js ''2026-01-26T18:00:00'') = 1769479200000"
  by (simp add: pst_host_def zone_time_def rx_ev date_ev)

lemma event_run:
  assumes p: "parseEventDetails (cheerio_load e) content = Some (event_parsed cr)"
    and d: "parseDateTime (e_host e) (Some (js ''Monday, January 26, 2026''))
              (Some (js ''6:00 PM - 10:00 PM'')) = sample_dt"
    and future: "\<not> local_time (e_host e) (js ''2026-01-26T18:00:00'') < now (e_host e)"
    and img: "http_get e (js ''http://img/a.jpg'') = None"
    and ok: "store_ok e = accept_all"
    and site: "website_link e (http_get e (js ''http://e/1'')) = site"
  shows "processRSSItem e (item_with content) (js ''maryland'') (js ''Maryland'') empty_world =
    (\<lparr>status = ''created'', reason = None, item_id = Some (JNum 1)\<rparr>,
     created_with (payload_of (item_with content) (or_str site cr) cr))"
  using future img
  by (simp add: item_with_def p d site event_parsed_def sample_dt_def
        processRSSItem_def scrapeEventRsvpLink_def after_dates_def
        created_with_def payload_of_def
        del: parseDateTime.simps)
     (simp add: ok accept_all_def empty_world_def read_items_def issue_def create_event_def
        image_for_def venue_for_def tag_for_def upload_download_def has_bitplebs_def
        create_item_def new_id_def or_str_def rx_ev item_with_def)

lemma sample_env_future:
  "\<not> local_time (e_host (sample_env 1700000000000 get accept)) (js ''2026-01-26T18:00:00'') <
     now (e_host (sample_env 1700000000000 get accept))"
  using eastern_reading [of 1700000000000]
  by (simp add: sample_env_fields) (simp add: est_host_def)

lemma sample_run:
  "processRSSItem offline_env sample_item (js ''maryland'') (js ''Maryland'') empty_world =
   (\<lparr>status = ''created'', reason = None, item_id = Some (JNum 1)\<rparr>, sample_created)"
  using event_run [of offline_env sample_content "Some luma_href" None]
    sample_details sample_dates [of 1700000000000] sample_env_future [of no_network accept_all]
  by (simp add: offline_env_def sample_env_fields sample_parsed_def sample_item_def
        sample_created_def sample_payload_def del: parseDateTime.simps)
     (simp add: no_network_def website_link_def or_str_def)

text \<open>
  C4. An item whose start instant is before the current time is to be skipped as a past
  event. The script reads the start, a timestamp of New York without zone, in the zone of
  the host (\<open>dayjs(startDateTime)\<close>). On a host in Pacific time, half an hour after the
  start: the start of the sample item resolves to 18:00 on 26 January 2026, which in New
  York is the instant 1769468400000; the current time is later; and the item is looked up
  and created.
\<close>

theorem C4_started_event_is_created_on_pacific_host:
  "item_dates pacific_env sample_item = sample_dt \<and>
   new_york_instant (e_host pacific_env) (js ''2026-01-26T18:00:00'') = Some 1769468400000 \<and>
   1769468400000 < now (e_host pacific_env) \<and>
   processRSSItem pacific_env sample_item (js ''maryland'') (js ''Maryland'') empty_world =
     (\<lparr>status = ''created'', reason = None, item_id = Some (JNum 1)\<rparr>, sample_created)"
proof -
  have p: "parseEventDetails (cheerio_load pacific_env) sample_content =
      Some (event_parsed (Some luma_href))"
    using sample_details by (simp add: pacific_env_def host_env_def sample_parsed_def)
  have d: "parseDateTime (e_host pacific_env) (Some (js ''Monday, January 26, 2026''))
      (Some (js ''6:00 PM - 10:00 PM'')) = sample_dt"
    using pacific_dates [of 1769470200000]
    by (simp add: pacific_env_def host_env_def del: parseDateTime.simps)
  have i: "new_york_instant (e_host pacific_env) (js ''2026-01-26T18:00:00'') =
      Some 1769468400000"
    by (simp add: pacific_env_def host_env_def new_york_instant_def pst_host_def rx_ev date_ev)
  have n: "now (e_host pacific_env) = 1769470200000"
    by (simp add: pacific_env_def host_env_def pst_host_def)
  have f: "\<not> local_time (e_host pacific_env) (js ''2026-01-26T18:00:00'') <
      now (e_host pacific_env)"
    using pacific_reading [of 1769470200000]
    by (simp add: pacific_env_def host_env_def) (simp add: pst_host_def)
  have r: "processRSSItem pacific_env (item_with sample_content) (js ''maryland'')
      (js ''Maryland'') empty_world =
    (\<lparr>status = ''created'', reason = None, item_id = Some (JNum 1)\<rparr>,
     created_with (payload_of (item_with sample_content) (or_str None (Some luma_href))
       (Some luma_href)))"
    using p d f
    by (rule event_run)
       (simp_all add: pacific_env_def host_env_def no_network_def website_link_def)
  have "item_dates pacific_env sample_item = sample_dt"
    using p d
    by (simp add: item_dates_def sample_item_def item_with_def event_parsed_def
          del: parseDateTime.simps)
  with i n r show ?thesis
    by (simp add: sample_item_def sample_created_def sample_payload_def or_str_def
          luma_href_def)
qed

text \<open>On a host in New York's zone the same item at the same time is skipped, and nothing
  but the fetch of the page is requested.\<close>

lemma started_event_is_skipped_on_eastern_host:
  "processRSSItem eastern_env sample_item (js ''maryland'') (js ''Maryland'') empty_world =
     (\<lparr>status = ''skipped'', reason = Some ''past_event'', item_id = None\<rparr>,
      issue (Fetch (js ''http://e/1'')) empty_world)"
proof -
  have p: "parseEventDetails (cheerio_load eastern_env) (contentEncoded sample_item) =
      Some sample_parsed"
    using sample_details by (simp add: eastern_env_def host_env_def sample_item_def item_with_def)
  have d: "startDateTime (parseDateTime (e_host eastern_env) (dateStr sample_parsed)
      (timeStr sample_parsed)) = Some (js ''2026-01-26T18:00:00'')"
    using sample_dates [of 1769470200000]
    by (simp add: eastern_env_def host_env_def sample_parsed_def event_parsed_def sample_dt_def
          del: parseDateTime.simps)
  have f: "local_time (e_host eastern_env) (js ''2026-01-26T18:00:00'') < now (e_host eastern_env)"
    using eastern_reading [of 1769470200000]
    by (simp add: eastern_env_def host_env_def) (simp add: est_host_def)
  from past_reading_is_skipped [OF p d f, of "js ''maryland''" "js ''Maryland''" empty_world]
  show ?thesis by (simp add: sample_item_def item_with_def)
qed

section \<open>Requests and stored events\<close>

lemma only_refl: "only P w w"
  by (simp add: only_def)

lemma only_trans: "only P w w1 \<Longrightarrow> only P w1 w2 \<Longrightarrow> only P w w2"
  by (auto simp: only_def)

lemma only_issue: "P r \<Longrightarrow> only P w (issue r w)"
  by (simp add: only_def issue_def)

lemma only_mono: "only P w w' \<Longrightarrow> (\<And>r. P r \<Longrightarrow> Q r) \<Longrightarrow> only Q w w'"
  by (auto simp: only_def)

lemma only_same_trace: "trace w' = trace w \<Longrightarrow> only P w w'"
  by (simp add: only_def)

lemma take1_filter:
  "take 1 (filter P xs) = (case find P xs of None \<Rightarrow> [] | Some x \<Rightarrow> [x])"
  by (induction xs) auto

lemma read_items_world [simp]: "snd (read_items e c k v w) = issue (ReadItems c k v) w"
  by (simp add: read_items_def)

lemma read_events_result:
  "fst (read_items e Events ''external_url'' (JStr u) w) =
     (if store_ok e (ReadItems Events ''external_url'' (JStr u))
      then Some (case stored_event w u of None \<Rightarrow> [] | Some x \<Rightarrow> [x]) else None)"
  using take1_filter [of "\<lambda>x. field x ''external_url'' = JStr u" "events w"]
  by (simp add: read_items_def stored_event_def)

lemma issue_fields [simp]:
  "events (issue r w) = events w" "venues (issue r w) = venues w" "tags (issue r w) = tags w"
  "files (issue r w) = files w" "counter (issue r w) = counter w"
  "trace (issue r w) = trace w @ [r]"
  by (simp_all add: issue_def)

lemma set_items_trace [simp]: "trace (set_items c xs w) = trace w"
  by (cases c) simp_all

lemma set_items_counter [simp]: "counter (set_items c xs w) = counter w"
  by (cases c) simp_all

lemma set_items_events [simp]:
  "events (set_items c xs w) = (if c = Events then xs else events w)"
  by (cases c) simp_all

lemma set_items_tags [simp]:
  "tags (set_items c xs w) = (if c = Tags then xs else tags w)"
  by (cases c) simp_all

text \<open>What an upload, a find-or-create of a tag or a venue and the download of an image do:
  they add auxiliary requests and leave the events as they are.\<close>

lemma upload_file_aux:
  "only auxiliary w (snd (upload_file e f m w)) \<and> events (snd (upload_file e f m w)) = events w"
  by (simp add: upload_file_def only_def)

lemma upload_download_aux:
  "only auxiliary w (snd (upload_download e u resp w)) \<and>
   events (snd (upload_download e u resp w)) = events w"
  using upload_file_aux
  by (auto simp: upload_download_def only_refl split: option.splits)

lemma downloadAndUploadImage_aux:
  "only auxiliary w (snd (downloadAndUploadImage e u w)) \<and>
   events (snd (downloadAndUploadImage e u w)) = events w"
proof (cases u)
  case None
  then show ?thesis by (simp add: only_refl)
next
  case (Some url)
  have "only auxiliary w (issue (Fetch url) w)" by (simp add: only_issue)
  moreover have "only auxiliary (issue (Fetch url) w)
      (snd (upload_download e url (http_get e url) (issue (Fetch url) w)))"
    using upload_download_aux by blast
  ultimately have "only auxiliary w (snd (upload_download e url (http_get e url) (issue (Fetch url) w)))"
    by (rule only_trans)
  moreover have "events (snd (upload_download e url (http_get e url) (issue (Fetch url) w))) = events w"
    using upload_download_aux [of "issue (Fetch url) w" e url "http_get e url"] by simp
  ultimately show ?thesis using Some by (simp add: only_refl)
qed

lemma create_item_aux:
  "c \<noteq> Events \<Longrightarrow>
   only auxiliary w (snd (create_item e c payload w)) \<and>
   events (snd (create_item e c payload w)) = events w"
  by (cases c) (simp_all add: create_item_def only_def)

lemma found_or_create_aux:
  assumes "c \<noteq> Events"
  shows "only auxiliary w (snd (found_or_create e c payload (r, w))) \<and>
         events (snd (found_or_create e c payload (r, w))) = events w"
proof (cases r)
  case None
  then show ?thesis by (simp add: only_refl)
next
  case (Some xs)
  show ?thesis
  proof (cases xs)
    case Nil
    have "snd (created_id (create_item e c payload w)) = snd (create_item e c payload w)"
      by (cases "create_item e c payload w" rule: created_id.cases) simp_all
    with Some Nil create_item_aux [OF assms, of w e payload] show ?thesis by simp
  next
    case (Cons x ys)
    with Some show ?thesis by (simp add: only_refl)
  qed
qed

lemma findOrCreateTag_aux:
  "only auxiliary w (snd (findOrCreateTag e n w)) \<and>
   events (snd (findOrCreateTag e n w)) = events w"
proof (cases "n = []")
  case True
  then show ?thesis by (simp add: findOrCreateTag_def only_refl)
next
  case False
  obtain r where r: "read_items e Tags ''name'' (JStr n) w = (r, issue (ReadItems Tags ''name'' (JStr n)) w)"
    by (simp add: read_items_def)
  have a: "only auxiliary w (issue (ReadItems Tags ''name'' (JStr n)) w)" by (simp add: only_issue)
  from found_or_create_aux [of Tags "issue (ReadItems Tags ''name'' (JStr n)) w" e _ r]
  have b: "only auxiliary (issue (ReadItems Tags ''name'' (JStr n)) w)
             (snd (found_or_create e Tags [(''name'', JStr n)] (r, issue (ReadItems Tags ''name'' (JStr n)) w)))"
    and c: "events (snd (found_or_create e Tags [(''name'', JStr n)] (r, issue (ReadItems Tags ''name'' (JStr n)) w))) = events w"
    by simp_all
  from only_trans [OF a b] c False r show ?thesis by (simp add: findOrCreateTag_def)
qed

lemma findOrCreateVenue_aux:
  "only auxiliary w (snd (findOrCreateVenue e n a w)) \<and>
   events (snd (findOrCreateVenue e n a w)) = events w"
proof (cases n)
  case None
  then show ?thesis by (simp add: only_refl)
next
  case (Some nm)
  show ?thesis
  proof (cases "nm = []")
    case True
    with Some show ?thesis by (simp add: only_refl)
  next
    case False
    obtain r where r: "read_items e Venues ''name'' (JStr nm) w = (r, issue (ReadItems Venues ''name'' (JStr nm)) w)"
      by (simp add: read_items_def)
    have a: "only auxiliary w (issue (ReadItems Venues ''name'' (JStr nm)) w)" by (simp add: only_issue)
    from found_or_create_aux [of Venues "issue (ReadItems Venues ''name'' (JStr nm)) w" e _ r]
    have b: "only auxiliary (issue (ReadItems Venues ''name'' (JStr nm)) w)
               (snd (found_or_create e Venues [(''name'', JStr nm), (''address'', str_val (or_str a (Some [])))]
                  (r, issue (ReadItems Venues ''name'' (JStr nm)) w)))"
      and c: "events (snd (found_or_create e Venues [(''name'', JStr nm), (''address'', str_val (or_str a (Some [])))]
                  (r, issue (ReadItems Venues ''name'' (JStr nm)) w))) = events w"
      by simp_all
    from only_trans [OF a b] c False r Some show ?thesis by simp
  qed
qed

lemma backfill_Nil [simp]: "backfill ex []"
  by (simp add: backfill_def)

lemma backfill_append [simp]: "backfill ex (p @ q) \<longleftrightarrow> backfill ex p \<and> backfill ex q"
  by (simp add: backfill_def ball_Un)

lemma backfill_single [simp]:
  "backfill ex [(k, v)] \<longleftrightarrow>
     k \<in> {''image'', ''rsvp_url'', ''tags''} \<and> \<not> truthy (field ex k) \<and> truthy v"
  by (simp add: backfill_def)

lemma truthy_str_val [simp]: "truthy (str_val s) = truthy_str s"
  by (cases s) simp_all

text \<open>The patch that \<open>updatesNeeded\<close> builds is a back-fill patch for the stored event;
  building it adds auxiliary requests only and leaves the events as they are.\<close>

lemma image_update_props:
  "backfill ex (fst (image_update e parsed ex w)) \<and>
   only auxiliary w (snd (image_update e parsed ex w)) \<and>
   events (snd (image_update e parsed ex w)) = events w"
proof (cases "\<not> truthy (field ex ''image'') \<and> truthy_str (imageUrl parsed)")
  case False
  then show ?thesis by (auto simp: image_update_def only_refl)
next
  case True
  obtain v w1 where d: "downloadAndUploadImage e (imageUrl parsed) w = (v, w1)"
    by (cases "downloadAndUploadImage e (imageUrl parsed) w")
  with downloadAndUploadImage_aux [of w e "imageUrl parsed"]
  have "only auxiliary w w1" "events w1 = events w" by simp_all
  with True d show ?thesis by (simp add: image_update_def)
qed

lemma tag_update_props:
  assumes "backfill ex p"
  shows "backfill ex (fst (tag_update e ttl ex (p, w))) \<and>
         only auxiliary w (snd (tag_update e ttl ex (p, w))) \<and>
         events (snd (tag_update e ttl ex (p, w))) = events w"
proof (cases "has_bitplebs ttl \<and> \<not> truthy (field ex ''tags'')")
  case False
  with assms show ?thesis by (auto simp: only_refl)
next
  case True
  obtain v w1 where d: "findOrCreateTag e (js ''bitplebs'') w = (v, w1)"
    by (cases "findOrCreateTag e (js ''bitplebs'') w")
  with findOrCreateTag_aux [of w e "js ''bitplebs''"]
  have "only auxiliary w w1" "events w1 = events w" by simp_all
  with True d assms show ?thesis by simp
qed

lemma updatesNeeded_props:
  "backfill ex (fst (updatesNeeded e item rsvp parsed ex w)) \<and>
   only auxiliary w (snd (updatesNeeded e item rsvp parsed ex w)) \<and>
   events (snd (updatesNeeded e item rsvp parsed ex w)) = events w"
proof -
  obtain p1 w1 where i: "image_update e parsed ex w = (p1, w1)"
    by (cases "image_update e parsed ex w")
  with image_update_props [of ex e parsed w]
  have 1: "backfill ex p1" "only auxiliary w w1" "events w1 = events w" by simp_all
  obtain p2 where r: "rsvp_update rsvp ex (p1, w1) = (p2, w1)" and 2: "backfill ex p2"
    using 1(1) by (cases "\<not> truthy (field ex ''rsvp_url'') \<and> truthy_str rsvp") auto
  from tag_update_props [OF 2, of e "title item" w1]
  have 3: "backfill ex (fst (tag_update e (title item) ex (p2, w1)))"
    "only auxiliary w1 (snd (tag_update e (title item) ex (p2, w1)))"
    "events (snd (tag_update e (title item) ex (p2, w1))) = events w1" by simp_all
  from only_trans [OF 1(2) 3(2)] 3(1) 3(3) 1(3) i r show ?thesis
    by (simp add: updatesNeeded_def)
qed

text \<open>Applying a patch: nothing when it is empty; otherwise one update of the stored event,
  which changes the events only when the store accepts it.\<close>

lemma apply_updates_props:
  "only (\<lambda>r. p \<noteq> [] \<and> r = UpdateItem Events (field ex ''id'') p) w
     (snd (apply_updates e ex (p, w))) \<and>
   (events (snd (apply_updates e ex (p, w))) = events w \<and>
      fst (apply_updates e ex (p, w)) = already_exists ex
    \<or> p \<noteq> [] \<and>
      events (snd (apply_updates e ex (p, w))) =
        map (\<lambda>x. if field x ''id'' = field ex ''id'' then patched x p else x) (events w) \<and>
      status (fst (apply_updates e ex (p, w))) = ''updated'')"
  by (simp add: update_item_def only_def)

text \<open>Creating an event: auxiliary requests, then one create whose payload is \<open>eventData\<close>;
  the event is appended when the store accepts it.\<close>

lemma create_event_props:
  "\<exists>i v t.
     only (\<lambda>r. auxiliary r \<or> r = CreateItem Events (eventData item fs rsvp parsed dt i v t)) w
       (snd (create_event e item fs rsvp parsed dt w)) \<and>
     (events (snd (create_event e item fs rsvp parsed dt w)) = events w \<and>
        status (fst (create_event e item fs rsvp parsed dt w)) = ''failed''
      \<or> (\<exists>ident. events (snd (create_event e item fs rsvp parsed dt w)) =
            events w @ [(''id'', ident) # eventData item fs rsvp parsed dt i v t] \<and>
          fst (create_event e item fs rsvp parsed dt w) =
            \<lparr>status = ''created'', reason = None, item_id = Some ident\<rparr>))"
proof -
  obtain i w1 where a: "image_for e parsed w = (i, w1)" by (cases "image_for e parsed w")
  obtain v w2 where b: "venue_for e parsed w1 = (v, w2)" by (cases "venue_for e parsed w1")
  obtain t w3 where c: "tag_for e (title item) w2 = (t, w3)" by (cases "tag_for e (title item) w2")
  let ?P = "\<lambda>r. auxiliary r \<or> r = CreateItem Events (eventData item fs rsvp parsed dt i v t)"
  have 1: "only auxiliary w w1 \<and> events w1 = events w"
    using a downloadAndUploadImage_aux [of w e "imageUrl parsed"]
    by (auto simp: image_for_def only_refl split: if_splits)
  have 2: "only auxiliary w1 w2 \<and> events w2 = events w1"
    using b findOrCreateVenue_aux [of w1 e "venueName parsed" "venueAddress parsed"]
    by (auto simp: venue_for_def only_refl split: if_splits)
  have 3: "only auxiliary w2 w3 \<and> events w3 = events w2"
    using c findOrCreateTag_aux [of w2 e "js ''bitplebs''"]
    by (auto simp: tag_for_def only_refl split: if_splits)
  have "only auxiliary w w3" using 1 2 3 only_trans by blast
  then have 4: "only ?P w w3" by (rule only_mono) simp
  have 5: "only ?P w3 (snd (create_item e Events (eventData item fs rsvp parsed dt i v t) w3))"
    by (simp add: create_item_def only_def)
  have eq: "create_event e item fs rsvp parsed dt w =
      create_outcome (create_item e Events (eventData item fs rsvp parsed dt i v t) w3)"
    using a b c by (simp add: create_event_def)
  have 6: "snd (create_outcome x) = snd x" for x
    by (cases x rule: create_outcome.cases) simp_all
  have 7: "only ?P w (snd (create_event e item fs rsvp parsed dt w))"
    using only_trans [OF 4 5] by (simp add: eq 6)
  have 8: "events (snd (create_event e item fs rsvp parsed dt w)) = events w \<and>
        status (fst (create_event e item fs rsvp parsed dt w)) = ''failed''
      \<or> (\<exists>ident. events (snd (create_event e item fs rsvp parsed dt w)) =
            events w @ [(''id'', ident) # eventData item fs rsvp parsed dt i v t] \<and>
          fst (create_event e item fs rsvp parsed dt w) =
            \<lparr>status = ''created'', reason = None, item_id = Some ident\<rparr>)"
    using 1 2 3 by (simp add: eq create_item_def)
  from 7 8 show ?thesis by blast
qed

text \<open>The five ways through \<open>processRSSItem\<close>. \<open>item_rsvp\<close> is the RSVP URL that the item is
  processed with, \<open>looked_up\<close> the world after the page fetch and the lookup.\<close>

lemma processRSSItem_paths:
  fixes e item w
  defines "page \<equiv> issue (Fetch (link item)) w"
  defines "looked_up \<equiv> issue (ReadItems Events ''external_url'' (JStr (link item))) page"
  obtains
    (parse_error)
      "parseEventDetails (cheerio_load e) (contentEncoded item) = None"
      "processRSSItem e item fs fn w =
         (\<lparr>status = ''failed'', reason = Some ''parse_error'', item_id = None\<rparr>, w)"
  | (date_error) parsed where
      "parseEventDetails (cheerio_load e) (contentEncoded item) = Some parsed"
      "startDateTime (parseDateTime (e_host e) (dateStr parsed) (timeStr parsed)) = None"
      "processRSSItem e item fs fn w =
         (\<lparr>status = ''failed'', reason = Some ''date_parse_error'', item_id = None\<rparr>, page)"
  | (past) parsed start where
      "parseEventDetails (cheerio_load e) (contentEncoded item) = Some parsed"
      "startDateTime (parseDateTime (e_host e) (dateStr parsed) (timeStr parsed)) = Some start"
      "local_time (e_host e) start < now (e_host e)"
      "processRSSItem e item fs fn w =
         (\<lparr>status = ''skipped'', reason = Some ''past_event'', item_id = None\<rparr>, page)"
  | (existing) parsed start ex where
      "parseEventDetails (cheerio_load e) (contentEncoded item) = Some parsed"
      "startDateTime (parseDateTime (e_host e) (dateStr parsed) (timeStr parsed)) = Some start"
      "\<not> local_time (e_host e) start < now (e_host e)"
      "store_ok e (ReadItems Events ''external_url'' (JStr (link item)))"
      "stored_event w (link item) = Some ex"
      "processRSSItem e item fs fn w =
         apply_updates e ex
           (updatesNeeded e item (or_str (website_link e (http_get e (link item))) (rsvpUrl parsed))
              parsed ex looked_up)"
  | (new) parsed start where
      "parseEventDetails (cheerio_load e) (contentEncoded item) = Some parsed"
      "startDateTime (parseDateTime (e_host e) (dateStr parsed) (timeStr parsed)) = Some start"
      "\<not> local_time (e_host e) start < now (e_host e)"
      "\<not> store_ok e (ReadItems Events ''external_url'' (JStr (link item))) \<or>
       stored_event w (link item) = None"
      "processRSSItem e item fs fn w =
         create_event e item fs (or_str (website_link e (http_get e (link item))) (rsvpUrl parsed))
           parsed (parseDateTime (e_host e) (dateStr parsed) (timeStr parsed)) looked_up"
proof (cases "parseEventDetails (cheerio_load e) (contentEncoded item)")
  case None
  then show ?thesis using parse_error by (simp add: processRSSItem_def)
next
  case (Some parsed)
  let ?dt = "parseDateTime (e_host e) (dateStr parsed) (timeStr parsed)"
  let ?rsvp = "or_str (website_link e (http_get e (link item))) (rsvpUrl parsed)"
  have step: "processRSSItem e item fs fn w =
      checked_start e item fs ?rsvp parsed ?dt (startDateTime ?dt) page"
    using Some by (simp add: processRSSItem_def scrapeEventRsvpLink_def after_dates_def page_def)
  show ?thesis
  proof (cases "startDateTime ?dt")
    case None
    with step Some date_error show ?thesis by simp
  next
    case start: (Some start)
    then have ne: "start \<noteq> []" by (rule parseDateTime_start_nonempty)
    show ?thesis
    proof (cases "local_time (e_host e) start < now (e_host e)")
      case True
      with step start ne Some past show ?thesis by simp
    next
      case False
      have ev: "stored_event page (link item) = stored_event w (link item)"
        by (simp add: stored_event_def page_def)
      have go: "processRSSItem e item fs fn w =
          after_lookup e item fs ?rsvp parsed ?dt
            (fst (read_items e Events ''external_url'' (JStr (link item)) page), looked_up)"
        using step start ne False
        by (simp add: looked_up_def) (metis prod.collapse read_items_world)
      show ?thesis
      proof (cases "store_ok e (ReadItems Events ''external_url'' (JStr (link item)))")
        case no: False
        with go have "processRSSItem e item fs fn w = create_event e item fs ?rsvp parsed ?dt looked_up"
          by (simp add: read_events_result)
        with Some start False no new show ?thesis by blast
      next
        case ok: True
        show ?thesis
        proof (cases "stored_event w (link item)")
          case None
          with go ok ev have "processRSSItem e item fs fn w =
              create_event e item fs ?rsvp parsed ?dt looked_up"
            by (simp add: read_events_result)
          with Some start False None new show ?thesis by blast
        next
          case found: (Some ex)
          with go ok ev have "processRSSItem e item fs fn w =
              apply_updates e ex (updatesNeeded e item ?rsvp parsed ex looked_up)"
            by (simp add: read_events_result)
          with Some start False ok found existing show ?thesis by blast
        qed
      qed
    qed
  qed
qed

lemma auxiliary_not_event_write:
  "auxiliary r \<Longrightarrow> r \<noteq> CreateItem Events payload \<and> r \<noteq> UpdateItem c ident patch"
  by (cases r rule: auxiliary.cases) simp_all

lemma only_two_steps:
  assumes "P (Fetch u)" "P (ReadItems c k v)"
  shows "only P w (issue (ReadItems c k v) (issue (Fetch u) w))"
  using assms by (simp add: only_def)

text \<open>The requests of \<open>processRSSItem\<close>: auxiliary ones, at most one update, which is a
  back-fill patch for the stored event with the URL of the item, and at most one create,
  issued only when the lookup failed or found nothing.\<close>

lemma processRSSItem_requests:
  assumes aux: "\<And>r. auxiliary r \<Longrightarrow> P r"
    and upd: "\<And>ex patch. stored_event w (link item) = Some ex \<Longrightarrow> backfill ex patch \<Longrightarrow>
        patch \<noteq> [] \<Longrightarrow> P (UpdateItem Events (field ex ''id'') patch)"
    and cre: "\<And>parsed start i v t.
        parseEventDetails (cheerio_load e) (contentEncoded item) = Some parsed \<Longrightarrow>
        startDateTime (parseDateTime (e_host e) (dateStr parsed) (timeStr parsed)) = Some start \<Longrightarrow>
        \<not> store_ok e (ReadItems Events ''external_url'' (JStr (link item))) \<or>
          stored_event w (link item) = None \<Longrightarrow>
        P (CreateItem Events
             (eventData item fs (or_str (website_link e (http_get e (link item))) (rsvpUrl parsed))
                parsed (parseDateTime (e_host e) (dateStr parsed) (timeStr parsed)) i v t))"
  shows "only P w (snd (processRSSItem e item fs fn w))"
proof (rule processRSSItem_paths [where e = e and item = item and w = w and fs = fs and fn = fn],
    goal_cases parse_error date_error past existing new)
  case parse_error
  then show ?case by (simp add: only_refl)
next
  case (date_error parsed)
  then show ?case using aux [of "Fetch (link item)"] by (simp add: only_issue)
next
  case (past parsed start)
  then show ?case using aux [of "Fetch (link item)"] by (simp add: only_issue)
next
  case (existing parsed start ex)
  let ?w0 = "issue (ReadItems Events ''external_url'' (JStr (link item))) (issue (Fetch (link item)) w)"
  let ?u = "updatesNeeded e item (or_str (website_link e (http_get e (link item))) (rsvpUrl parsed))
      parsed ex ?w0"
  have two: "only P w ?w0"
    by (rule only_two_steps) (simp_all add: aux)
  have bf: "backfill ex (fst ?u)" and a0: "only auxiliary ?w0 (snd ?u)"
    using updatesNeeded_props [of ex e item _ parsed ?w0] by simp_all
  have a: "only P ?w0 (snd ?u)"
    using a0 by (rule only_mono) (rule aux)
  have b0: "only (\<lambda>r. fst ?u \<noteq> [] \<and> r = UpdateItem Events (field ex ''id'') (fst ?u)) (snd ?u)
      (snd (apply_updates e ex (fst ?u, snd ?u)))"
    using apply_updates_props [of "fst ?u" ex "snd ?u" e] by (rule conjunct1)
  have b: "only P (snd ?u) (snd (apply_updates e ex (fst ?u, snd ?u)))"
    using b0
  proof (rule only_mono)
    fix r assume "fst ?u \<noteq> [] \<and> r = UpdateItem Events (field ex ''id'') (fst ?u)"
    then show "P r" using upd [OF existing(5) bf] by simp
  qed
  have "only P w (snd (apply_updates e ex ?u))"
    using only_trans [OF two only_trans [OF a b]] by simp
  then show ?case using existing(6) by simp
next
  case (new parsed start)
  let ?w0 = "issue (ReadItems Events ''external_url'' (JStr (link item))) (issue (Fetch (link item)) w)"
  let ?dt = "parseDateTime (e_host e) (dateStr parsed) (timeStr parsed)"
  let ?rsvp = "or_str (website_link e (http_get e (link item))) (rsvpUrl parsed)"
  have two: "only P w ?w0"
    by (rule only_two_steps) (simp_all add: aux)
  obtain i v tg where c0:
    "only (\<lambda>r. auxiliary r \<or> r = CreateItem Events (eventData item fs ?rsvp parsed ?dt i v tg)) ?w0
       (snd (create_event e item fs ?rsvp parsed ?dt ?w0))"
    using create_event_props [of item fs ?rsvp parsed ?dt ?w0 e] by blast
  have c: "only P ?w0 (snd (create_event e item fs ?rsvp parsed ?dt ?w0))"
    using c0
  proof (rule only_mono)
    fix r assume "auxiliary r \<or> r = CreateItem Events (eventData item fs ?rsvp parsed ?dt i v tg)"
    then show "P r"
    proof
      assume "auxiliary r" then show ?thesis by (rule aux)
    next
      assume "r = CreateItem Events (eventData item fs ?rsvp parsed ?dt i v tg)"
      then show ?thesis using cre [OF new(1) new(2) new(4)] by simp
    qed
  qed
  show ?case using only_trans [OF two c] new(5) by simp
qed


lemma eventData_end:
  "field (eventData item fs rsvp parsed dt i v t) ''end_date_time'' =
     str_val (or_str (endDateTime dt) (startDateTime dt))"
  by (simp add: eventData_def field_def)

text \<open>
  C10. \<open>parseDateTime\<close> returns both timestamps or neither. Every request that
  \<open>processRSSItem\<close> issues to create an event carries as \<open>end_date_time\<close> the end that
  \<open>parseDateTime\<close> resolved, a string that is not empty: the fallback to the start in
  \<open>endDateTime || startDateTime\<close> never applies.
\<close>

theorem C10_both_timestamps_or_neither:
  "(startDateTime (parseDateTime h d t) = None \<longleftrightarrow> endDateTime (parseDateTime h d t) = None) \<and>
   only (\<lambda>r. \<forall>payload. r = CreateItem Events payload \<longrightarrow>
           (\<exists>s. endDateTime (item_dates e item) = Some s \<and> s \<noteq> [] \<and>
                field payload ''end_date_time'' = JStr s))
     w (snd (processRSSItem e item fs fn w))"
proof
  show "startDateTime (parseDateTime h d t) = None \<longleftrightarrow> endDateTime (parseDateTime h d t) = None"
    using parseDateTime_cases [of h d t] by (auto simp: null_result_def)
next
  show "only (\<lambda>r. \<forall>payload. r = CreateItem Events payload \<longrightarrow>
           (\<exists>s. endDateTime (item_dates e item) = Some s \<and> s \<noteq> [] \<and>
                field payload ''end_date_time'' = JStr s))
     w (snd (processRSSItem e item fs fn w))"
  proof (rule processRSSItem_requests, goal_cases aux upd cre)
    case (aux r)
    then show ?case using auxiliary_not_event_write by blast
  next
    case (upd ex patch)
    show ?case by simp
  next
    case (cre parsed start i v tg)
    let ?dt = "parseDateTime (e_host e) (dateStr parsed) (timeStr parsed)"
    have dt: "item_dates e item = ?dt" using cre(1) by (simp add: item_dates_def)
    obtain s u where su:
      "?dt = \<lparr>startDateTime = Some (format_naive s), endDateTime = Some (format_naive u)\<rparr>"
      using parseDateTime_cases [of "e_host e" "dateStr parsed" "timeStr parsed"] cre(2)
      by (auto simp: null_result_def)
    show ?case
      using su dt format_naive_nonempty [of u] by (simp add: eventData_end or_str_def)
  qed
qed

theorem C10_witness:
  "(startDateTime (parseDateTime (est_host 0) (Some (js ''Monday, January 26, 2026''))
      (Some (js ''6:00 PM - 10:00 PM''))) = None \<longleftrightarrow>
    endDateTime (parseDateTime (est_host 0) (Some (js ''Monday, January 26, 2026''))
      (Some (js ''6:00 PM - 10:00 PM''))) = None) \<and>
   only (\<lambda>r. \<forall>payload. r = CreateItem Events payload \<longrightarrow>
           field payload ''end_date_time'' = JStr (js ''2026-01-26T22:00:00''))
     empty_world sample_created \<and>
   CreateItem Events sample_payload \<in> set (trace sample_created)"
proof -
  have d: "item_dates offline_env sample_item = sample_dt"
    using sample_details sample_dates [of 1700000000000]
    by (simp add: item_dates_def offline_env_def sample_env_def host_env_def sample_item_def
          item_with_def sample_parsed_def event_parsed_def del: parseDateTime.simps)
  from C10_both_timestamps_or_neither
    [of "est_host 0" "Some (js ''Monday, January 26, 2026'')" "Some (js ''6:00 PM - 10:00 PM'')"
        offline_env sample_item empty_world "js ''maryland''" "js ''Maryland''"]
  show ?thesis
    by (simp add: sample_run d sample_dt_def sample_created_def created_with_def sample_dates
          del: parseDateTime.simps)
qed

section \<open>Dash variants and invalid dates\<close>

lemmas zone_free_ev = rx_ev pdt_ev dayjs_tz_def dayjs_tz_instance_def parseFormattedInput_def
  iso_format_def
  match4_def match2_def match1to2_def parseInt_def Date_UTC_def full_year_def TimeClip_def
  MakeDate_def MakeDay_def MakeTime_def DayFromYear_def InLeapYear_def month_start_def
  padStart_def String_def digits.simps

text \<open>
  C6. Time ranges that differ only in the dash between the two times are to parse alike.
  On every host the range with a hyphen resolves, while the same range with an en dash
  (U+2013) or an em dash (U+2014) gives null for both timestamps: the two dashes are not in
  the character class of the pattern as the source file holds it.
\<close>

theorem C6_hyphen_parses_dashes_do_not:
  "startDateTime (parseDateTime h (Some (js ''Monday, January 26, 2026''))
     (Some (js ''6:00 PM '' @ [0x2D] @ js '' 10:00 PM''))) \<noteq> None \<and>
   parseDateTime h (Some (js ''Monday, January 26, 2026''))
     (Some (js ''6:00 PM '' @ [0x2013] @ js '' 10:00 PM'')) = null_result \<and>
   parseDateTime h (Some (js ''Monday, January 26, 2026''))
     (Some (js ''6:00 PM '' @ [0x2014] @ js '' 10:00 PM'')) = null_result"
  by (simp add: zone_free_ev)

text \<open>With the hyphen the example of the specification resolves to the civil times 18:00
  and 22:00 of the same day, as written, on a host that has New York at UTC-5.\<close>

lemma hyphen_example_resolves:
  "parseDateTime (est_host t) (Some (js ''Monday, January 26, 2026''))
     (Some (js ''6:00 PM - 10:00 PM EST'')) =
   \<lparr>startDateTime = Some (js ''2026-01-26T18:00:00''),
    endDateTime = Some (js ''2026-01-26T22:00:00'')\<rparr>"
  by (simp add: est_host_def rx_ev date_ev pdt_ev)

text \<open>The characters that the pattern does take between the two times include U+201D, the
  third character of the em dash as the file spells it.\<close>

lemma corrupted_separator_parses:
  "startDateTime (parseDateTime h (Some (js ''Monday, January 26, 2026''))
     (Some (js ''6:00 PM '' @ [0x201D] @ js '' 10:00 PM''))) \<noteq> None"
  by (simp add: zone_free_ev)

text \<open>
  C7. Missing input, a time without a range, a date that no pattern recognises and an
  invalid month name all give null, and \<open>processRSSItem\<close> then reports date_parse_error
  (the lemmas below). A day that the month does not have is not among the failures: the
  library reads the timestamp without strict checking, the day carries over into the next
  month, and February 30 resolves to March 2.
\<close>

theorem C7_february_30_resolves_to_march_2:
  "parseDateTime (est_host t) (Some (js ''Monday, February 30, 2026''))
     (Some (js ''6:00 PM - 10:00 PM EST'')) =
   \<lparr>startDateTime = Some (js ''2026-03-02T18:00:00''),
    endDateTime = Some (js ''2026-03-02T22:00:00'')\<rparr>"
  by (simp add: est_host_def rx_ev date_ev pdt_ev)

lemma february_30_resolves_on_every_host:
  "startDateTime (parseDateTime h (Some (js ''Monday, February 30, 2026''))
     (Some (js ''6:00 PM - 10:00 PM EST''))) \<noteq> None"
  by (simp add: zone_free_ev)

lemma missing_input_is_null:
  "parseDateTime h None t = null_result" "parseDateTime h d None = null_result"
  "parseDateTime h (Some []) t = null_result" "parseDateTime h d (Some []) = null_result"
  by (cases t; cases d; simp)+

lemma no_time_range_is_null:
  "str_match True timeRangePattern ts = None \<Longrightarrow>
   parseDateTime h d (Some ts) = null_result"
  by (cases d) (simp_all add: range_result_def)

lemma unrecognised_date_is_null:
  "parseDateTime h (Some (js ''next week'')) (Some (js ''6:00 PM - 10:00 PM'')) = null_result"
  by (simp add: zone_free_ev)

lemma invalid_month_is_null:
  "parseDateTime h (Some (js ''Monday, Smarch 26, 2026'')) (Some (js ''6:00 PM - 10:00 PM''))
     = null_result"
  by (simp add: zone_free_ev)

lemma short_year_is_null:
  "parseDateTime h (Some (js ''Monday, January 26, 26'')) (Some (js ''6:00 PM - 10:00 PM''))
     = null_result"
  by (simp add: zone_free_ev)

lemma null_dates_are_date_parse_error:
  assumes "parseEventDetails (cheerio_load e) (contentEncoded item) = Some parsed"
    and "startDateTime (parseDateTime (e_host e) (dateStr parsed) (timeStr parsed)) = None"
  shows "processRSSItem e item fs fn w =
           (\<lparr>status = ''failed'', reason = Some ''date_parse_error'', item_id = None\<rparr>,
            issue (Fetch (link item)) w)"
  using assms by (simp add: processRSSItem_def scrapeEventRsvpLink_def after_dates_def)

section \<open>The RSVP link\<close>










lemma two_links_details:
  "parseEventDetails sample_load two_links_content = Some (event_parsed (Some luma_href))"
  using event_details [of "event_dom [meetup_href, luma_href]" two_links_content]
  by (simp add: sample_loads event_dom_def content_rsvp_def luma_step_def meetup_step_def
        luma_href_def meetup_href_def redirect_href_def js_def)

lemma meetup_details:
  "parseEventDetails sample_load meetup_content = Some (event_parsed (Some meetup_href))"
  using event_details [of "event_dom [meetup_href]" meetup_content]
  by (simp add: sample_loads event_dom_def content_rsvp_def luma_step_def meetup_step_def
        luma_href_def meetup_href_def redirect_href_def js_def)

lemma bare_details:
  "parseEventDetails sample_load bare_content = Some (event_parsed None)"
  using event_details [of "event_dom []" bare_content]
  by (simp add: sample_loads event_dom_def content_rsvp_def luma_step_def meetup_step_def
        luma_href_def meetup_href_def redirect_href_def js_def)


text \<open>The runs of items before the event: the page is served and the content has a
  Meetup link and a Luma link; the page is answered with an error status; the page cannot
  be fetched and the content has a Meetup link only; no link at all; and a Meetup link
  followed by a link to another host whose query contains \<open>lu.ma/\<close>.\<close>

lemma sample_event_run:
  assumes p: "parseEventDetails sample_load content = Some (event_parsed cr)"
    and img: "get (js ''http://img/a.jpg'') = None"
    and site: "website_link (sample_env 1700000000000 get accept_all) (get (js ''http://e/1'')) =
        site"
  shows "processRSSItem (sample_env 1700000000000 get accept_all) (item_with content)
      (js ''maryland'') (js ''Maryland'') empty_world =
    (\<lparr>status = ''created'', reason = None, item_id = Some (JNum 1)\<rparr>,
     created_with (payload_of (item_with content) (or_str site cr) cr))"
proof (rule event_run)
  show "parseEventDetails (cheerio_load (sample_env 1700000000000 get accept_all)) content =
      Some (event_parsed cr)"
    using p by (simp add: sample_env_fields)
  show "parseDateTime (e_host (sample_env 1700000000000 get accept_all))
      (Some (js ''Monday, January 26, 2026'')) (Some (js ''6:00 PM - 10:00 PM'')) = sample_dt"
    using sample_dates [of 1700000000000] by (simp add: sample_env_fields del: parseDateTime.simps)
  show "\<not> local_time (e_host (sample_env 1700000000000 get accept_all))
      (js ''2026-01-26T18:00:00'') < now (e_host (sample_env 1700000000000 get accept_all))"
    by (rule sample_env_future)
  show "http_get (sample_env 1700000000000 get accept_all) (js ''http://img/a.jpg'') = None"
    using img by (simp add: sample_env_fields)
  show "store_ok (sample_env 1700000000000 get accept_all) = accept_all"
    by (simp add: sample_env_fields)
  show "website_link (sample_env 1700000000000 get accept_all)
      (http_get (sample_env 1700000000000 get accept_all) (js ''http://e/1'')) = site"
    using site by (simp add: sample_env_fields)
qed

lemma page_link:
  "website_href (sample_load page_content) = Some website_href_of_page"
  "website_href_of_page \<noteq> []"
  by (simp_all add: sample_loads page_dom_def website_href_of_page_def)

lemma served_run:
  "processRSSItem served_env (item_with two_links_content) (js ''maryland'') (js ''Maryland'')
     empty_world =
   (\<lparr>status = ''created'', reason = None, item_id = Some (JNum 1)\<rparr>,
    created_with (payload_of (item_with two_links_content) (Some website_href_of_page)
      (Some luma_href)))"
proof -
  have "website_link (sample_env 1700000000000 page_served accept_all)
      (page_served (js ''http://e/1'')) = Some website_href_of_page"
    by (simp add: website_link_def page_served_def sample_env_fields page_link)
  moreover have "page_served (js ''http://img/a.jpg'') = None"
    by (simp add: page_served_def js_def)
  ultimately show ?thesis
    using sample_event_run [OF two_links_details, of page_served "Some website_href_of_page"]
      page_link(2)
    by (simp add: served_env_def or_str_def)
qed

lemma error_run:
  "processRSSItem error_env (item_with two_links_content) (js ''maryland'') (js ''Maryland'')
     empty_world =
   (\<lparr>status = ''created'', reason = None, item_id = Some (JNum 1)\<rparr>,
    created_with (payload_of (item_with two_links_content) (Some luma_href) (Some luma_href)))"
proof -
  have "website_link (sample_env 1700000000000 page_error accept_all)
      (page_error (js ''http://e/1'')) = None"
    by (simp add: website_link_def page_error_def)
  moreover have "page_error (js ''http://img/a.jpg'') = None"
    by (simp add: page_error_def js_def)
  ultimately show ?thesis
    using sample_event_run [OF two_links_details, of page_error None]
    by (simp add: error_env_def or_str_def)
qed

lemma offline_run:
  assumes "parseEventDetails sample_load content = Some (event_parsed cr)"
  shows "processRSSItem offline_env (item_with content) (js ''maryland'') (js ''Maryland'')
     empty_world =
   (\<lparr>status = ''created'', reason = None, item_id = Some (JNum 1)\<rparr>,
    created_with (payload_of (item_with content) cr cr))"
  using sample_event_run [OF assms, of no_network None]
  by (simp add: offline_env_def or_str_def no_network_def website_link_def)



text \<open>The four events are created, each with the URL above.\<close>

lemma rsvp_of_created_events:
  "CreateItem Events (payload_of (item_with two_links_content) (Some website_href_of_page)
      (Some luma_href)) \<in>
     set (trace (snd (processRSSItem served_env (item_with two_links_content)
       (js ''maryland'') (js ''Maryland'') empty_world)))"
  "CreateItem Events (payload_of (item_with two_links_content) (Some luma_href)
      (Some luma_href)) \<in>
     set (trace (snd (processRSSItem error_env (item_with two_links_content)
       (js ''maryland'') (js ''Maryland'') empty_world)))"
  "CreateItem Events (payload_of (item_with meetup_content) (Some meetup_href)
      (Some meetup_href)) \<in>
     set (trace (snd (processRSSItem offline_env (item_with meetup_content)
       (js ''maryland'') (js ''Maryland'') empty_world)))"
  "CreateItem Events (payload_of (item_with bare_content) None None) \<in>
     set (trace (snd (processRSSItem offline_env (item_with bare_content)
       (js ''maryland'') (js ''Maryland'') empty_world)))"
  by (simp_all add: served_run error_run offline_run [OF meetup_details]
        offline_run [OF bare_details] created_with_def)


end
